theory Spec2Isabelle
  imports Main "HOL-Library.Word"
begin

unbundle bit_operations_syntax

section \<open>Remote I/O over a channel transport: data model\<close>

text \<open>
  The embedding follows the C file that implements the remote-I/O client and server
  paths (\<^verbatim>\<open>is_message_valid\<close>, \<^verbatim>\<open>zxrio_read_msg\<close>, \<^verbatim>\<open>zxrio_txn\<close>,
  \<^verbatim>\<open>zxrio_ioctl\<close>, \<^verbatim>\<open>write_common\<close>, \<^verbatim>\<open>read_common\<close>, \<^verbatim>\<open>zxrio_close\<close>,
  \<^verbatim>\<open>zxrio_sync_open_connection\<close>, \<^verbatim>\<open>zxrio_connect\<close>).

  \<^item> \<^verbatim>\<open>uint32_t\<close>, \<^verbatim>\<open>zx_handle_t\<close> and \<^verbatim>\<open>zx_status_t\<close> are 32-bit words; a status is
    read as a signed number with \<open>sint\<close>. \<^verbatim>\<open>int64_t\<close> is a 64-bit word, a byte an
    8-bit word.
  \<^item> A pair (pointer, length) of the source is a byte list whose length is the length
    argument.
  \<^item> The numeric constants and the macros come from separate header files; every
    constant and macro the code takes from them is a field of the record
    \<open>rio_consts\<close>, passed as the first argument \<open>K\<close>, so that every theorem
    holds for all values of the constants that meet its hypotheses.
  \<^item> The kernel is external. Every system call appends one event to the list of
    events a function returns, and the values the kernel hands back are arguments of
    the function that makes the call.
\<close>

type_synonym u8 = "8 word"
type_synonym u32 = "32 word"
type_synonym i64 = "64 word"
type_synonym zx_handle = "32 word"
type_synonym zx_status = "32 word"

record rio_consts =
  FDIO_CHUNK_SIZE :: nat
  FDIO_MAX_HANDLES :: nat
  FDIO_IOCTL_MAX_INPUT :: nat
  ZXRIO_HDR_SZ :: nat
  SIZEOF_DESCRIBE :: nat
  PATH_MAX :: nat
  ZX_OK :: zx_status
  ZX_ERR_INTERNAL :: zx_status
  ZX_ERR_CALL_FAILED :: zx_status
  ZX_ERR_INVALID_ARGS :: zx_status
  ZX_ERR_IO :: zx_status
  ZX_ERR_BAD_PATH :: zx_status
  ZX_HANDLE_INVALID :: zx_handle
  ZX_FS_FLAG_DESCRIBE :: u32
  ZXRIO_OP :: "u32 \<Rightarrow> u32"
  ZXRIO_STATUS :: u32
  ZXRIO_CLOSE :: u32
  ZXRIO_IOCTL :: u32
  ZXRIO_IOCTL_1H :: u32
  ZXRIO_IOCTL_2H :: u32
  ZXRIO_READ_AT :: u32
  ZXRIO_WRITE_AT :: u32
  ZXRIO_ON_OPEN :: u32
  IOCTL_KIND :: "u32 \<Rightarrow> u32"
  IOCTL_KIND_GET_HANDLE :: u32
  IOCTL_KIND_GET_TWO_HANDLES :: u32
  IOCTL_KIND_GET_THREE_HANDLES :: u32
  IOCTL_KIND_SET_HANDLE :: u32
  IOCTL_KIND_SET_TWO_HANDLES :: u32

text \<open>
  The message struct \<^verbatim>\<open>zxrio_msg_t\<close>, with the fields the code reads and writes.
  \<open>arg2\<close> is the union of \<^verbatim>\<open>off\<close>, \<^verbatim>\<open>mode\<close> and \<^verbatim>\<open>op\<close>; \<open>handle\<close> is the inline
  handle array. \<open>data\<close> is the payload array \<^verbatim>\<open>uint8_t data[FDIO_CHUNK_SIZE]\<close>,
  as the byte it holds at each index: the array always holds a byte at every index
  below its size, whatever the length of the payload it carries.
\<close>

record zxrio_msg =
  txid :: u32
  op :: u32
  datalen :: u32
  arg :: zx_status
  arg2 :: i64
  hcount :: u32
  handle :: "zx_handle list"
  data :: "nat \<Rightarrow> u8"

text \<open>The connection object \<^verbatim>\<open>zxrio_t\<close>: \<^verbatim>\<open>h\<close>, \<^verbatim>\<open>h2\<close> and the transaction counter.\<close>

record zxrio =
  rio_h :: zx_handle
  rio_h2 :: zx_handle
  rio_txid :: u32

text \<open>The describe record \<^verbatim>\<open>zxrio_describe_t\<close>, with the fields the code uses.\<close>

record zxrio_describe =
  info_op :: u32
  info_status :: zx_status
  info_type :: u32
  info_handle :: zx_handle

text \<open>
  System calls, as events. A channel write records the channel, the message, the number
  of bytes, the handles handed over and the status the kernel returned; a channel call
  records the request the same way. The number of bytes is passed in a \<^verbatim>\<open>uint32_t\<close>,
  so the sum of header size and payload length is taken modulo \<open>2^32\<close>.
\<close>

datatype syscall =
    HandleClose zx_handle
  | ChannelCreate
  | ChannelWrite zx_handle zxrio_msg nat "zx_handle list" zx_status
  | ChannelRead zx_handle
  | ChannelCall zx_handle zxrio_msg nat "zx_handle list"
  | ObjectWaitOne zx_handle

fun is_call :: "syscall \<Rightarrow> bool" where
  "is_call (ChannelCall c m n hs) = True"
| "is_call e = False"

fun is_blocking :: "syscall \<Rightarrow> bool" where
  "is_blocking (ChannelCall c m n hs) = True"
| "is_blocking (ChannelRead c) = True"
| "is_blocking (ObjectWaitOne c) = True"
| "is_blocking e = False"

definition closed_handles :: "syscall list \<Rightarrow> zx_handle list" where
  "closed_handles evs = concat (map (\<lambda>e. case e of HandleClose x \<Rightarrow> [x] | _ \<Rightarrow> []) evs)"

definition txn_count :: "syscall list \<Rightarrow> nat" where
  "txn_count evs = length (filter is_call evs)"

text \<open>
  \<^verbatim>\<open>memcpy(dst, src, n)\<close> and \<^verbatim>\<open>memset(dst, v, n)\<close> on the start of a buffer.
  \<open>array_load a n\<close> is the first \<open>n\<close> bytes of an array, so that a copy out of the
  payload array moves exactly \<open>n\<close> bytes; \<open>array_store a src n\<close> is the array after
  \<^verbatim>\<open>memcpy(a, src, n)\<close> from a buffer that holds at least \<open>n\<close> bytes.
\<close>

definition memcpy :: "'a list \<Rightarrow> 'a list \<Rightarrow> nat \<Rightarrow> 'a list" where
  "memcpy dst src n = take n src @ drop n dst"

definition array_load :: "(nat \<Rightarrow> 'a) \<Rightarrow> nat \<Rightarrow> 'a list" where
  "array_load a n = map a [0..<n]"

definition array_store :: "(nat \<Rightarrow> 'a) \<Rightarrow> 'a list \<Rightarrow> nat \<Rightarrow> (nat \<Rightarrow> 'a)" where
  "array_store a src n = (\<lambda>i. if i < n \<and> i < length src then src ! i else a i)"

definition memset :: "'a list \<Rightarrow> 'a \<Rightarrow> nat \<Rightarrow> 'a list" where
  "memset dst v n = replicate n v @ drop n dst"

text \<open>
  \<^verbatim>\<open>memset(&msg, 0, ZXRIO_HDR_SZ)\<close> on a local message: every header field and the
  inline handle array become zero, the payload array keeps what the stack held.
\<close>

definition zero_hdr :: "zxrio_msg \<Rightarrow> zxrio_msg" where
  "zero_hdr m = m\<lparr>txid := 0, op := 0, datalen := 0, arg := 0, arg2 := 0, hcount := 0,
                   handle := replicate (length (handle m)) 0\<rparr>"

section \<open>Wire message codec\<close>

definition is_message_valid :: "rio_consts \<Rightarrow> zxrio_msg \<Rightarrow> bool" where
  "is_message_valid K msg =
     (if unat (datalen msg) > FDIO_CHUNK_SIZE K \<or> unat (hcount msg) > FDIO_MAX_HANDLES K
      then False else True)"

text \<open>
  \<^verbatim>\<open>size - ZXRIO_HDR_SZ\<close> is only evaluated when \<^verbatim>\<open>size >= ZXRIO_HDR_SZ\<close>, so the
  subtraction on \<open>nat\<close> is the subtraction of the source.
\<close>

definition is_message_reply_valid :: "rio_consts \<Rightarrow> zxrio_msg \<Rightarrow> u32 \<Rightarrow> bool" where
  "is_message_reply_valid K msg sz =
     (if unat sz < ZXRIO_HDR_SZ K \<or> unat (datalen msg) \<noteq> unat sz - ZXRIO_HDR_SZ K
      then False else is_message_valid K msg)"

text \<open>
  \<^verbatim>\<open>discard_handles(handles, count)\<close> closes the first \<open>count\<close> handles of the array,
  in order.
\<close>

definition discard_handles :: "zx_handle list \<Rightarrow> nat \<Rightarrow> syscall list" where
  "discard_handles handles count = map HandleClose (take count handles)"

section \<open>Server read path\<close>

text \<open>
  What \<^verbatim>\<open>zx_channel_read\<close> hands back: its status, the message buffer as it stands
  after the kernel copied the received bytes and the received handles into it
  (\<open>rd_msg\<close>, whose \<open>hcount\<close> field is the one embedded in the received bytes), the
  number of bytes and the number of handles received. On a status other than
  \<^verbatim>\<open>ZX_OK\<close> the kernel copies nothing and the buffer stays as it was.
\<close>

record read_out =
  rd_status :: zx_status
  rd_msg :: zxrio_msg
  rd_dsz :: u32
  rd_hcount :: u32

definition zxrio_read_msg ::
  "rio_consts \<Rightarrow> read_out \<Rightarrow> zx_handle \<Rightarrow> zxrio_msg \<Rightarrow> zx_status \<times> zxrio_msg \<times> syscall list" where
  "zxrio_read_msg K rd c msg =
     (let r = rd_status rd in
      if r \<noteq> ZX_OK K then (r, msg, [ChannelRead c])
      else
        let msg1 = (rd_msg rd)\<lparr>hcount := rd_hcount rd\<rparr> in
        if \<not> is_message_reply_valid K msg1 (rd_dsz rd)
        then (ZX_ERR_INVALID_ARGS K, msg1,
              ChannelRead c # discard_handles (handle msg1) (unat (hcount msg1)))
        else (r, msg1, [ChannelRead c]))"

section \<open>Transaction engine\<close>

text \<open>
  What \<^verbatim>\<open>zx_channel_call\<close> hands back: its status, the read status it stored in
  \<^verbatim>\<open>rs\<close> (\<open>None\<close> when it stored nothing, so that \<^verbatim>\<open>rs\<close> keeps its initial
  \<^verbatim>\<open>ZX_ERR_INTERNAL\<close>), the number of bytes received, and the message buffer after the
  call: \<open>Some m\<close> when the kernel wrote a reply into it (bytes, handles, and the number
  of received handles stored through \<^verbatim>\<open>&msg->hcount\<close>), \<open>None\<close> when it left the
  buffer as the request.
\<close>

record call_out =
  co_status :: zx_status
  co_rs :: "zx_status option"
  co_dsize :: u32
  co_reply :: "zxrio_msg option"

definition fail_discard_handles ::
  "zx_status \<Rightarrow> zxrio \<Rightarrow> zxrio_msg \<Rightarrow> syscall list \<Rightarrow> zx_status \<times> zxrio \<times> zxrio_msg \<times> syscall list" where
  "fail_discard_handles r rio msg evs =
     (r, rio, msg\<lparr>hcount := 0\<rparr>, evs @ discard_handles (handle msg) (unat (hcount msg)))"

definition zxrio_txn ::
  "rio_consts \<Rightarrow> call_out \<Rightarrow> zxrio \<Rightarrow> zxrio_msg \<Rightarrow> zx_status \<times> zxrio \<times> zxrio_msg \<times> syscall list" where
  "zxrio_txn K co rio msg =
     (if \<not> is_message_valid K msg then (ZX_ERR_INVALID_ARGS K, rio, msg, [])
      else
        let msg1 = msg\<lparr>txid := rio_txid rio\<rparr>;
            rio1 = rio\<lparr>rio_txid := rio_txid rio + 1\<rparr>;
            evs = [ChannelCall (rio_h rio1) msg1
                     ((ZXRIO_HDR_SZ K + unat (datalen msg1)) mod 2 ^ 32)
                     (take (unat (hcount msg1)) (handle msg1))];
            r = co_status co;
            rs = (case co_rs co of None \<Rightarrow> ZX_ERR_INTERNAL K | Some s \<Rightarrow> s);
            dsize = co_dsize co;
            msg2 = (case co_reply co of None \<Rightarrow> msg1 | Some m \<Rightarrow> m)
        in
          if sint r < 0 then
            (if r = ZX_ERR_CALL_FAILED K then (rs, rio1, msg2\<lparr>hcount := 0\<rparr>, evs)
             else fail_discard_handles r rio1 msg2 evs)
          else if \<not> is_message_reply_valid K msg2 dsize \<or>
                  ZXRIO_OP K (op msg2) \<noteq> ZXRIO_STATUS K
          then fail_discard_handles (ZX_ERR_IO K) rio1 msg2 evs
          else if sint (arg msg2) < 0 then fail_discard_handles (arg msg2) rio1 msg2 evs
          else (arg msg2, rio1, msg2, evs))"

section \<open>Operations built on the transaction engine\<close>

subsection \<open>ioctl\<close>

text \<open>
  A handle is four bytes in memory, least significant byte first. \<open>load_handle buf i\<close>
  is \<^verbatim>\<open>*(((zx_handle_t*) buf) + i)\<close>; the code reads it only after checking that
  the buffer is long enough, and the last case is never reached then.
\<close>

definition handle_bytes :: "zx_handle \<Rightarrow> u8 list" where
  "handle_bytes x = [ucast x, ucast (drop_bit 8 x), ucast (drop_bit 16 x), ucast (drop_bit 24 x)]"

definition handles_bytes :: "zx_handle list \<Rightarrow> u8 list" where
  "handles_bytes hs = concat (map handle_bytes hs)"

definition load_handle :: "u8 list \<Rightarrow> nat \<Rightarrow> zx_handle" where
  "load_handle buf i =
     (case take 4 (drop (4 * i) buf) of
        [b0, b1, b2, b3] \<Rightarrow>
          ucast b0 OR push_bit 8 (ucast b1) OR push_bit 16 (ucast b2) OR push_bit 24 (ucast b3)
      | _ \<Rightarrow> 0)"

text \<open>The first \<^verbatim>\<open>switch (IOCTL_KIND(op))\<close>: length checks and inline handles.\<close>

definition ioctl_setup ::
  "rio_consts \<Rightarrow> u32 \<Rightarrow> u8 list \<Rightarrow> nat \<Rightarrow> zxrio_msg \<Rightarrow> zx_status + zxrio_msg" where
  "ioctl_setup K opn in_buf out_len msg =
     (let kind = IOCTL_KIND K opn; in_len = length in_buf in
      if kind = IOCTL_KIND_GET_HANDLE K then
        (if out_len < 4 then Inl (ZX_ERR_INVALID_ARGS K) else Inr msg)
      else if kind = IOCTL_KIND_GET_TWO_HANDLES K then
        (if out_len < 2 * 4 then Inl (ZX_ERR_INVALID_ARGS K) else Inr msg)
      else if kind = IOCTL_KIND_GET_THREE_HANDLES K then
        (if out_len < 3 * 4 then Inl (ZX_ERR_INVALID_ARGS K) else Inr msg)
      else if kind = IOCTL_KIND_SET_HANDLE K then
        (if in_len < 4 then Inl (ZX_ERR_INVALID_ARGS K)
         else Inr (msg\<lparr>op := ZXRIO_IOCTL_1H K, hcount := 1,
                        handle := (handle msg)[0 := load_handle in_buf 0]\<rparr>))
      else if kind = IOCTL_KIND_SET_TWO_HANDLES K then
        (if in_len < 2 * 4 then Inl (ZX_ERR_INVALID_ARGS K)
         else Inr (msg\<lparr>op := ZXRIO_IOCTL_2H K, hcount := 2,
                        handle := (handle msg)[0 := load_handle in_buf 0,
                                               1 := load_handle in_buf 1]\<rparr>))
      else Inr msg)"

text \<open>
  The second \<^verbatim>\<open>switch (IOCTL_KIND(op))\<close>: the number of handles kept and the output
  buffer after the \<^verbatim>\<open>memcpy\<close> and \<^verbatim>\<open>memset\<close> of the branch. Both calls are given
  \<^verbatim>\<open>out_buf\<close> itself as destination.
\<close>

definition ioctl_handles ::
  "rio_consts \<Rightarrow> u32 \<Rightarrow> zxrio_msg \<Rightarrow> u8 list \<Rightarrow> nat \<times> u8 list" where
  "ioctl_handles K opn msg out_buf =
     (let kind = IOCTL_KIND K opn in
      if kind = IOCTL_KIND_GET_HANDLE K then
        (let handles = (if unat (hcount msg) > 0 then 1 else 0) in
         if handles \<noteq> 0 then (handles, memcpy out_buf (handles_bytes (handle msg)) 4)
         else (handles, memset out_buf 0 4))
      else if kind = IOCTL_KIND_GET_TWO_HANDLES K then
        (let handles = (if unat (hcount msg) > 2 then 2 else unat (hcount msg));
             out1 = (if handles \<noteq> 0
                     then memcpy out_buf (handles_bytes (handle msg)) (handles * 4)
                     else out_buf);
             out2 = (if handles < 2 then memset out1 0 ((2 - handles) * 4) else out1)
         in (handles, out2))
      else if kind = IOCTL_KIND_GET_THREE_HANDLES K then
        (let handles = (if unat (hcount msg) > 3 then 3 else unat (hcount msg));
             out1 = (if handles \<noteq> 0
                     then memcpy out_buf (handles_bytes (handle msg)) (handles * 4)
                     else out_buf);
             out2 = (if handles < 3 then memset out1 0 ((3 - handles) * 4) else out1)
         in (handles, out2))
      else (0, out_buf))"

text \<open>
  \<open>msg0\<close> is what the uninitialised local \<^verbatim>\<open>msg\<close> holds on entry. The result is the
  returned \<^verbatim>\<open>ssize_t\<close>, the connection, the output buffer and the system calls made.
\<close>

definition zxrio_ioctl ::
  "rio_consts \<Rightarrow> call_out \<Rightarrow> zxrio_msg \<Rightarrow> zxrio \<Rightarrow> u32 \<Rightarrow> u8 list \<Rightarrow> u8 list
     \<Rightarrow> int \<times> zxrio \<times> u8 list \<times> syscall list" where
  "zxrio_ioctl K co msg0 rio opn in_buf out_buf =
     (let in_len = length in_buf; out_len = length out_buf in
      if in_len > FDIO_IOCTL_MAX_INPUT K \<or> out_len > FDIO_CHUNK_SIZE K
      then (sint (ZX_ERR_INVALID_ARGS K), rio, out_buf, [])
      else
        case ioctl_setup K opn in_buf out_len
               ((zero_hdr msg0)\<lparr>op := ZXRIO_IOCTL K, datalen := of_nat in_len,
                                  arg := of_nat out_len, arg2 := ucast opn\<rparr>) of
          Inl e \<Rightarrow> (sint e, rio, out_buf, [])
        | Inr msg1 \<Rightarrow>
            (case zxrio_txn K co rio (msg1\<lparr>data := array_store (data msg1) in_buf in_len\<rparr>) of
               (r, rio1, msg2, evs) \<Rightarrow>
                 if sint r < 0 then (sint r, rio1, out_buf, evs)
                 else
                   let copy_len = (if unat (datalen msg2) > out_len then out_len
                                   else unat (datalen msg2));
                       out1 = memcpy out_buf (array_load (data msg2) copy_len) copy_len
                   in case ioctl_handles K opn msg2 out1 of
                        (handles, out2) \<Rightarrow>
                          (sint r, rio1, out2,
                           evs @ discard_handles (drop handles (handle msg2))
                                   (unat (hcount msg2) - handles))))"

subsection \<open>Chunked write and read\<close>

text \<open>
  The variables of the two loops. \<open>st_data\<close> is the caller's buffer from the
  \<^verbatim>\<open>data\<close> pointer on, \<open>st_done\<close> the part of it the pointer has moved past (kept
  for the read loop, which fills it). \<open>st_i\<close> counts the iterations begun; the kernel's
  answer to the call of iteration \<open>i\<close> is \<open>env i\<close>.
\<close>

record io_st =
  st_count :: int
  st_r :: zx_status
  st_len :: nat
  st_done :: "u8 list"
  st_data :: "u8 list"
  st_offset :: i64
  st_msg :: zxrio_msg
  st_rio :: zxrio
  st_evs :: "syscall list"
  st_i :: nat

datatype 'a ctl = Break 'a | Continue 'a

definition chunk_of :: "rio_consts \<Rightarrow> nat \<Rightarrow> nat" where
  "chunk_of K len = (if len > FDIO_CHUNK_SIZE K then FDIO_CHUNK_SIZE K else len)"

text \<open>The request each loop builds at the top of an iteration.\<close>

definition write_request :: "rio_consts \<Rightarrow> u32 \<Rightarrow> io_st \<Rightarrow> zxrio_msg" where
  "write_request K opn s =
     (let xfer = chunk_of K (st_len s);
          msg = (zero_hdr (st_msg s))\<lparr>op := opn, datalen := of_nat xfer\<rparr>;
          msg1 = (if opn = ZXRIO_WRITE_AT K then msg\<lparr>arg2 := st_offset s\<rparr> else msg)
      in msg1\<lparr>data := array_store (data msg1) (st_data s) xfer\<rparr>)"

definition read_request :: "rio_consts \<Rightarrow> u32 \<Rightarrow> io_st \<Rightarrow> zxrio_msg" where
  "read_request K opn s =
     (let xfer = chunk_of K (st_len s);
          msg = (zero_hdr (st_msg s))\<lparr>op := opn, arg := of_nat xfer\<rparr>
      in if opn = ZXRIO_READ_AT K then msg\<lparr>arg2 := st_offset s\<rparr> else msg)"

definition write_iter :: "rio_consts \<Rightarrow> u32 \<Rightarrow> call_out \<Rightarrow> io_st \<Rightarrow> io_st ctl" where
  "write_iter K opn co s =
     (let xfer = chunk_of K (st_len s)
      in case zxrio_txn K co (st_rio s) (write_request K opn s) of
           (r, rio1, msg3, evs) \<Rightarrow>
             let s1 = s\<lparr>st_r := r, st_msg := msg3, st_rio := rio1,
                        st_evs := st_evs s @ evs, st_i := Suc (st_i s)\<rparr>
             in if sint r < 0 then Break s1
                else
                  let s2 = s1\<lparr>st_evs := st_evs s1 @
                                  discard_handles (handle msg3) (unat (hcount msg3))\<rparr>
                  in if sint r > int xfer then Break (s2\<lparr>st_r := ZX_ERR_IO K\<rparr>)
                     else
                       let n = nat (sint r);
                           s3 = s2\<lparr>st_count := st_count s2 + sint r,
                                   st_data := drop n (st_data s2),
                                   st_len := st_len s2 - n,
                                   st_offset := (if opn = ZXRIO_WRITE_AT K
                                                 then st_offset s2 + scast r
                                                 else st_offset s2)\<rparr>
                       in if sint r < int xfer then Break s3 else Continue s3)"

partial_function (option) write_loop ::
  "rio_consts \<Rightarrow> u32 \<Rightarrow> (nat \<Rightarrow> call_out) \<Rightarrow> io_st \<Rightarrow> io_st option" where
  "write_loop K opn env s =
     (if st_len s > 0
      then (case write_iter K opn (env (st_i s)) s of
              Break s' \<Rightarrow> Some s'
            | Continue s' \<Rightarrow> write_loop K opn env s')
      else Some s)"

definition io_init :: "zxrio_msg \<Rightarrow> zxrio \<Rightarrow> u8 list \<Rightarrow> i64 \<Rightarrow> io_st" where
  "io_init msg0 rio buf offset =
     \<lparr> st_count = 0, st_r = 0, st_len = length buf, st_done = [], st_data = buf,
       st_offset = offset, st_msg = msg0, st_rio = rio, st_evs = [], st_i = 0 \<rparr>"

definition io_return :: "io_st \<Rightarrow> int" where
  "io_return s = (if st_count s \<noteq> 0 then st_count s else sint (st_r s))"

definition write_common ::
  "rio_consts \<Rightarrow> u32 \<Rightarrow> (nat \<Rightarrow> call_out) \<Rightarrow> zxrio_msg \<Rightarrow> zxrio \<Rightarrow> u8 list \<Rightarrow> i64
     \<Rightarrow> (int \<times> io_st) option" where
  "write_common K opn env msg0 rio buf offset =
     map_option (\<lambda>s. (io_return s, s)) (write_loop K opn env (io_init msg0 rio buf offset))"

definition read_iter :: "rio_consts \<Rightarrow> u32 \<Rightarrow> call_out \<Rightarrow> io_st \<Rightarrow> io_st ctl" where
  "read_iter K opn co s =
     (let xfer = chunk_of K (st_len s)
      in case zxrio_txn K co (st_rio s) (read_request K opn s) of
           (r, rio1, msg3, evs) \<Rightarrow>
             let s1 = s\<lparr>st_r := r, st_msg := msg3, st_rio := rio1,
                        st_evs := st_evs s @ evs, st_i := Suc (st_i s)\<rparr>
             in if sint r < 0 then Break s1
                else
                  let s2 = s1\<lparr>st_evs := st_evs s1 @
                                  discard_handles (handle msg3) (unat (hcount msg3))\<rparr>
                  in if sint r > sint (datalen msg3) \<or> sint r > int xfer
                     then Break (s2\<lparr>st_r := ZX_ERR_IO K\<rparr>)
                     else
                       let n = nat (sint r);
                           buf = memcpy (st_data s2) (array_load (data msg3) n) n;
                           s3 = s2\<lparr>st_count := st_count s2 + sint r,
                                   st_done := st_done s2 @ take n buf,
                                   st_data := drop n buf,
                                   st_len := st_len s2 - n,
                                   st_offset := (if opn = ZXRIO_READ_AT K
                                                 then st_offset s2 + scast r
                                                 else st_offset s2)\<rparr>
                       in if sint r < int xfer then Break s3 else Continue s3)"

partial_function (option) read_loop ::
  "rio_consts \<Rightarrow> u32 \<Rightarrow> (nat \<Rightarrow> call_out) \<Rightarrow> io_st \<Rightarrow> io_st option" where
  "read_loop K opn env s =
     (if st_len s > 0
      then (case read_iter K opn (env (st_i s)) s of
              Break s' \<Rightarrow> Some s'
            | Continue s' \<Rightarrow> read_loop K opn env s')
      else Some s)"

definition read_common ::
  "rio_consts \<Rightarrow> u32 \<Rightarrow> (nat \<Rightarrow> call_out) \<Rightarrow> zxrio_msg \<Rightarrow> zxrio \<Rightarrow> u8 list \<Rightarrow> i64
     \<Rightarrow> (int \<times> io_st) option" where
  "read_common K opn env msg0 rio buf offset =
     map_option (\<lambda>s. (io_return s, s)) (read_loop K opn env (io_init msg0 rio buf offset))"

subsection \<open>close\<close>

definition zxrio_close ::
  "rio_consts \<Rightarrow> call_out \<Rightarrow> zxrio_msg \<Rightarrow> zxrio \<Rightarrow> zx_status \<times> zxrio \<times> syscall list" where
  "zxrio_close K co msg0 rio =
     (case zxrio_txn K co rio ((zero_hdr msg0)\<lparr>op := ZXRIO_CLOSE K\<rparr>) of
        (r, rio1, msg1, evs) \<Rightarrow>
          let evs1 = (if sint r \<ge> 0
                      then evs @ discard_handles (handle msg1) (unat (hcount msg1))
                      else evs);
              hd1 = rio_h rio1;
              rio2 = rio1\<lparr>rio_h := 0\<rparr>;
              evs2 = evs1 @ [HandleClose hd1]
          in if rio_h2 rio2 > 0
             then (r, rio2\<lparr>rio_h2 := 0\<rparr>, evs2 @ [HandleClose (rio_h2 rio2)])
             else (r, rio2, evs2))"

section \<open>Open and connect\<close>

text \<open>
  What \<^verbatim>\<open>zx_channel_create\<close> hands back (status and the two endpoints), and what the
  \<^verbatim>\<open>zx_channel_read\<close> of the describe record hands back: status, the record as it
  stands after the kernel copied the bytes and stored a received handle in its handle
  field, the number of bytes and the number of handles received.
\<close>

record create_out =
  cr_status :: zx_status
  cr_h0 :: zx_handle
  cr_h1 :: zx_handle

record describe_out =
  dr_status :: zx_status
  dr_info :: zxrio_describe
  dr_dsize :: u32
  dr_handles :: u32

definition zxrio_sync_open_connection ::
  "rio_consts \<Rightarrow> create_out \<Rightarrow> zx_status \<Rightarrow> describe_out \<Rightarrow> zx_handle \<Rightarrow> zxrio_msg
     \<Rightarrow> zxrio_describe \<Rightarrow> zx_handle
     \<Rightarrow> zx_status \<times> zxrio_msg \<times> zxrio_describe \<times> zx_handle \<times> syscall list" where
  "zxrio_sync_open_connection K cr wr dr rio_hd msg info out =
     (if sint (cr_status cr) < 0 then (cr_status cr, msg, info, out, [ChannelCreate])
      else
        let hd0 = cr_h0 cr;
            msg1 = msg\<lparr>handle := (handle msg)[0 := cr_h1 cr], hcount := 1\<rparr>;
            evs1 = [ChannelCreate,
                    ChannelWrite rio_hd msg1
                      ((ZXRIO_HDR_SZ K + unat (datalen msg1)) mod 2 ^ 32)
                      (take (unat (hcount msg1)) (handle msg1)) wr]
        in if sint wr < 0
           then (wr, msg1, info, out, evs1 @ [HandleClose (handle msg1 ! 0), HandleClose hd0])
           else
             let evs2 = evs1 @ [ObjectWaitOne hd0, ChannelRead hd0];
                 r = dr_status dr
             in if r \<noteq> ZX_OK K then (r, msg1, info, out, evs2 @ [HandleClose hd0])
                else
                  let info1 = dr_info dr;
                      info2 = (if dr_handles dr = 0
                               then info1\<lparr>info_handle := ZX_HANDLE_INVALID K\<rparr>
                               else info1);
                      r1 = (if unat (dr_dsize dr) \<noteq> SIZEOF_DESCRIBE K \<or>
                               info_op info2 \<noteq> ZXRIO_ON_OPEN K
                            then ZX_ERR_IO K else info_status info2)
                  in if r1 \<noteq> ZX_OK K
                     then (r1, msg1, info2, ZX_HANDLE_INVALID K,
                           evs2 @ (if info_handle info2 \<noteq> ZX_HANDLE_INVALID K
                                   then [HandleClose (info_handle info2)] else [])
                                @ [HandleClose hd0])
                     else (r1, msg1, info2, hd0, evs2))"

text \<open>
  The path is the C string \<^verbatim>\<open>name\<close> up to its terminator, so \<^verbatim>\<open>strlen(name)\<close> is
  its length.
\<close>

definition zxrio_connect ::
  "rio_consts \<Rightarrow> zx_status \<Rightarrow> zxrio_msg \<Rightarrow> zx_handle \<Rightarrow> zx_handle \<Rightarrow> u32 \<Rightarrow> u32 \<Rightarrow> u32
     \<Rightarrow> u8 list \<Rightarrow> zx_status \<times> syscall list" where
  "zxrio_connect K wr msg0 svc cnxn opn flags mode name =
     (let len = length name in
      if len \<ge> PATH_MAX K then (ZX_ERR_BAD_PATH K, [HandleClose cnxn])
      else if flags AND ZX_FS_FLAG_DESCRIBE K \<noteq> 0
      then (ZX_ERR_INVALID_ARGS K, [HandleClose cnxn])
      else
        let m = zero_hdr msg0;
            msg = m\<lparr>op := opn, datalen := of_nat len, arg := flags, arg2 := ucast mode,
                    hcount := 1, handle := (handle m)[0 := cnxn],
                    data := array_store (data m) name len\<rparr>;
            ev = ChannelWrite svc msg ((ZXRIO_HDR_SZ K + unat (datalen msg)) mod 2 ^ 32)
                   (take 1 (handle msg)) wr
        in if sint wr < 0 then (wr, [ev, HandleClose cnxn]) else (ZX_OK K, [ev]))"

text \<open>
  One admissible choice of the constants, used for the concrete runs below: an 8192-byte
  chunk, three handles, a 48-byte header, and negative error codes.
\<close>

definition K0 :: rio_consts where
  "K0 = \<lparr> FDIO_CHUNK_SIZE = 8192, FDIO_MAX_HANDLES = 3, FDIO_IOCTL_MAX_INPUT = 1024,
          ZXRIO_HDR_SZ = 48, SIZEOF_DESCRIBE = 48, PATH_MAX = 4096,
          ZX_OK = 0, ZX_ERR_INTERNAL = - 1, ZX_ERR_CALL_FAILED = - 5,
          ZX_ERR_INVALID_ARGS = - 10, ZX_ERR_IO = - 40, ZX_ERR_BAD_PATH = - 50,
          ZX_HANDLE_INVALID = 0, ZX_FS_FLAG_DESCRIBE = 0x800000,
          ZXRIO_OP = (\<lambda>x. x AND 0x3FF), ZXRIO_STATUS = 0, ZXRIO_CLOSE = 1,
          ZXRIO_IOCTL = 10, ZXRIO_IOCTL_1H = 0x10A, ZXRIO_IOCTL_2H = 0x20A,
          ZXRIO_READ_AT = 14, ZXRIO_WRITE_AT = 15, ZXRIO_ON_OPEN = 7,
          IOCTL_KIND = (\<lambda>n. drop_bit 20 n AND 0xF),
          IOCTL_KIND_GET_HANDLE = 1, IOCTL_KIND_GET_TWO_HANDLES = 2,
          IOCTL_KIND_GET_THREE_HANDLES = 4, IOCTL_KIND_SET_HANDLE = 3,
          IOCTL_KIND_SET_TWO_HANDLES = 5 \<rparr>"

definition msg_zero :: zxrio_msg where
  "msg_zero = \<lparr> txid = 0, op = 0, datalen = 0, arg = 0, arg2 = 0, hcount = 0,
                handle = [0, 0, 0, 0], data = (\<lambda>i. 0) \<rparr>"

definition rio0 :: zxrio where
  "rio0 = \<lparr> rio_h = 3, rio_h2 = 4, rio_txid = 1 \<rparr>"

text \<open>A received message whose embedded handle count (99) is not the real one (1).\<close>

definition rd_forged :: read_out where
  "rd_forged = \<lparr> rd_status = 0,
       rd_msg = msg_zero\<lparr>hcount := 99, handle := [7, 8, 9, 10]\<rparr>,
       rd_dsz = 47, rd_hcount = 1 \<rparr>"






text \<open>A call whose write phase fails, and a status reply that carries one handle.\<close>

definition co_write_failed :: call_out where
  "co_write_failed = \<lparr> co_status = - 11, co_rs = None, co_dsize = 0, co_reply = None \<rparr>"

definition co_one_handle :: call_out where
  "co_one_handle = \<lparr> co_status = 0, co_rs = None, co_dsize = 56,
      co_reply = Some (msg_zero\<lparr>datalen := 8, hcount := 1, handle := [0x1234, 0, 0, 0],
                                 data := array_store (\<lambda>i. 0) [1, 2, 3, 4, 5, 6, 7, 8] 8\<rparr>) \<rparr>"

text \<open>An ioctl number of the "get two handles" kind under \<open>K0\<close>.\<close>

definition ioctl_get_two :: u32 where
  "ioctl_get_two = 0x200000"

text \<open>
  The run of that ioctl with an empty input, an eight-byte output buffer and the reply
  above.
\<close>

definition ioctl_run :: "int \<times> zxrio \<times> u8 list \<times> syscall list" where
  "ioctl_run = zxrio_ioctl K0 co_one_handle msg_zero rio0 ioctl_get_two []
                 [0xAA, 0xAA, 0xAA, 0xAA, 0xAA, 0xAA, 0xAA, 0xAA]"

text \<open>A describe reply with the wrong op code that carries one handle.\<close>

definition cr_ok :: create_out where
  "cr_ok = \<lparr> cr_status = 0, cr_h0 = 20, cr_h1 = 21 \<rparr>"

definition dr_wrong_op :: describe_out where
  "dr_wrong_op = \<lparr> dr_status = 0,
       dr_info = \<lparr> info_op = 3, info_status = 0, info_type = 0, info_handle = 30 \<rparr>,
       dr_dsize = 48, dr_handles = 1 \<rparr>"

definition dr_no_handle :: describe_out where
  "dr_no_handle = \<lparr> dr_status = 0,
       dr_info = \<lparr> info_op = 7, info_status = 0, info_type = 0, info_handle = 30 \<rparr>,
       dr_dsize = 48, dr_handles = 0 \<rparr>"

definition info_zero :: zxrio_describe where
  "info_zero = \<lparr> info_op = 0, info_status = 0, info_type = 0, info_handle = 0 \<rparr>"

text \<open>
  Answers of the kernel used to state the behaviour of the chunked loops.
  \<open>reply_status K co v\<close>: the call succeeded and left a well-framed status reply whose
  status word is \<open>v\<close>. \<open>read_reply K co v\<close>: moreover the reply's payload holds at
  least \<open>v\<close> bytes.
\<close>

definition reply_status :: "rio_consts \<Rightarrow> call_out \<Rightarrow> zx_status \<Rightarrow> bool" where
  "reply_status K co v =
     (0 \<le> sint (co_status co) \<and>
      (case co_reply co of
         None \<Rightarrow> False
       | Some m \<Rightarrow> is_message_reply_valid K m (co_dsize co) \<and>
                   ZXRIO_OP K (op m) = ZXRIO_STATUS K \<and> arg m = v))"

definition read_reply :: "rio_consts \<Rightarrow> call_out \<Rightarrow> zx_status \<Rightarrow> bool" where
  "read_reply K co v =
     (reply_status K co v \<and>
      (case co_reply co of None \<Rightarrow> False | Some m \<Rightarrow> sint v \<le> sint (datalen m)))"

fun ctl_state :: "'a ctl \<Rightarrow> 'a" where
  "ctl_state (Break s) = s"
| "ctl_state (Continue s) = s"


text \<open>
  Concrete inputs for the chunked loops: constants with a four-byte chunk, a ten-byte
  buffer, a status reply that reports \<open>n\<close> bytes and carries \<open>n\<close> payload bytes,
  and three kernels: one that always transfers the full request, one whose second
  answer is short, one whose second call fails in its write phase.
\<close>

definition K1 :: rio_consts where
  "K1 = K0\<lparr>FDIO_CHUNK_SIZE := 4\<rparr>"

definition buf10 :: "u8 list" where
  "buf10 = [1, 2, 3, 4, 5, 6, 7, 8, 9, 10]"

definition co_ok :: "nat \<Rightarrow> call_out" where
  "co_ok n = \<lparr> co_status = 0, co_rs = None, co_dsize = of_nat (48 + n),
       co_reply = Some (msg_zero\<lparr>arg := of_nat n, datalen := of_nat n,
                                  data := (\<lambda>i. 0x55)\<rparr>) \<rparr>"

definition env_full :: "nat \<Rightarrow> call_out" where
  "env_full i = co_ok (if i < 2 then 4 else 2)"

definition env_short :: "nat \<Rightarrow> call_out" where
  "env_short i = co_ok (if i < 1 then 4 else 2)"

definition env_fail :: "nat \<Rightarrow> call_out" where
  "env_fail i = (if i < 1 then co_ok 4 else co_write_failed)"

text \<open>A reply that reports two bytes and carries an eight-byte payload.\<close>

definition co_two_of_eight :: call_out where
  "co_two_of_eight = \<lparr> co_status = 0, co_rs = None, co_dsize = 56,
       co_reply = Some (msg_zero\<lparr>arg := 2, datalen := 8,
                                  data := array_store (\<lambda>i. 0) [1, 2, 3, 4, 5, 6, 7, 8] 8\<rparr>) \<rparr>"

text \<open>A reply that reports five bytes to a request for four.\<close>

definition co_oversize :: call_out where
  "co_oversize = \<lparr> co_status = 0, co_rs = None, co_dsize = 56,
       co_reply = Some (msg_zero\<lparr>arg := 5, datalen := 8,
                                  data := array_store (\<lambda>i. 0) [1, 2, 3, 4, 5, 6, 7, 8] 8\<rparr>) \<rparr>"

section \<open>Properties of the codec\<close>

text \<open>
  C4. For every message \<open>m\<close>, validation fails if and only if the payload length exceeds
  the maximum chunk size or the handle count exceeds the maximum handle count. The
  function only reads the message: its embedding returns the verdict and nothing else,
  so the message a caller holds after the call is the one it passed.
\<close>

theorem is_message_valid_iff:
  "(\<not> is_message_valid K m) =
     (unat (datalen m) > FDIO_CHUNK_SIZE K \<or> unat (hcount m) > FDIO_MAX_HANDLES K)"
  by (simp add: is_message_valid_def)

theorem is_message_valid_iff_witness:
  "\<not> is_message_valid K0 (msg_zero\<lparr>datalen := 8193\<rparr>) \<and>
   \<not> is_message_valid K0 (msg_zero\<lparr>hcount := 4\<rparr>) \<and>
   is_message_valid K0 (msg_zero\<lparr>datalen := 8192, hcount := 3\<rparr>)"
  using is_message_valid_iff [of K0 "msg_zero\<lparr>datalen := 8193\<rparr>"]
        is_message_valid_iff [of K0 "msg_zero\<lparr>hcount := 4\<rparr>"]
        is_message_valid_iff [of K0 "msg_zero\<lparr>datalen := 8192, hcount := 3\<rparr>"]
  by (simp add: K0_def msg_zero_def)

text \<open>
  C3, as stated: reply validation fails if and only if the wire size is smaller than the
  header or the payload length differs from the wire size minus the header. The code
  also runs the basic validation: a message of exactly header size, with payload length
  zero and four handles, is rejected although neither stated condition holds.
\<close>

theorem is_message_reply_valid_counterexample:
  "\<not> ((\<not> is_message_reply_valid K0 (msg_zero\<lparr>hcount := 4\<rparr>) 48) =
       (unat (48 :: u32) < ZXRIO_HDR_SZ K0 \<or>
        unat (datalen (msg_zero\<lparr>hcount := 4\<rparr>)) \<noteq> unat (48 :: u32) - ZXRIO_HDR_SZ K0))"
  by (simp add: is_message_reply_valid_def is_message_valid_def K0_def msg_zero_def)

text \<open>
  C3, amended: reply validation fails if and only if the wire size is smaller than the
  header, or the payload length differs from the wire size minus the header, or the
  basic validation fails (payload length above the maximum chunk size or handle count
  above the maximum handle count).
\<close>

theorem is_message_reply_valid_iff:
  "(\<not> is_message_reply_valid K m sz) =
     (unat sz < ZXRIO_HDR_SZ K \<or> unat (datalen m) \<noteq> unat sz - ZXRIO_HDR_SZ K \<or>
      unat (datalen m) > FDIO_CHUNK_SIZE K \<or> unat (hcount m) > FDIO_MAX_HANDLES K)"
  by (simp add: is_message_reply_valid_def is_message_valid_def)

theorem is_message_reply_valid_iff_witness:
  "\<not> is_message_reply_valid K0 (msg_zero\<lparr>hcount := 4\<rparr>) 48 \<and>
   \<not> is_message_reply_valid K0 msg_zero 47 \<and>
   \<not> is_message_reply_valid K0 (msg_zero\<lparr>datalen := 3\<rparr>) 50 \<and>
   is_message_reply_valid K0 (msg_zero\<lparr>datalen := 2, hcount := 1\<rparr>) 50"
  using is_message_reply_valid_iff [of K0 "msg_zero\<lparr>hcount := 4\<rparr>" 48]
        is_message_reply_valid_iff [of K0 msg_zero 47]
        is_message_reply_valid_iff [of K0 "msg_zero\<lparr>datalen := 3\<rparr>" 50]
        is_message_reply_valid_iff [of K0 "msg_zero\<lparr>datalen := 2, hcount := 1\<rparr>" 50]
  by (simp add: K0_def msg_zero_def)

section \<open>Evaluation helpers\<close>

lemma replicate_numeral: "replicate (numeral k) x = x # replicate (pred_numeral k) x"
  by (simp add: numeral_eq_Suc)

lemma array_load_0: "array_load a 0 = []"
  by (simp add: array_load_def)

lemma array_load_Suc: "array_load a (Suc n) = array_load a n @ [a n]"
  by (simp add: array_load_def)

lemma array_load_numeral:
  "array_load a (numeral k) = array_load a (pred_numeral k) @ [a (pred_numeral k)]"
  by (simp add: array_load_def numeral_eq_Suc)

lemma length_array_load: "length (array_load a n) = n"
  by (simp add: array_load_def)

section \<open>Properties of the server read path\<close>

text \<open>
  C2. On the server read path the handle count used to validate the message and to close
  handles on a validation failure is the count the transport reports out of band, not
  the field embedded in the received bytes: changing only the embedded field of the
  received message changes neither the result, nor the resulting message, nor the
  handles closed; and after a successful transport read the message's handle count is
  the transport's count and the handles closed on a validation failure are the first
  that many received handles.
\<close>

theorem zxrio_read_msg_ignores_embedded_hcount:
  "zxrio_read_msg K (rd\<lparr>rd_msg := (rd_msg rd)\<lparr>hcount := x\<rparr>\<rparr>) c msg = zxrio_read_msg K rd c msg \<and>
   (case zxrio_read_msg K rd c msg of
      (r, m, evs) \<Rightarrow>
        if rd_status rd = ZX_OK K
        then hcount m = rd_hcount rd \<and>
             closed_handles evs =
               (if is_message_reply_valid K ((rd_msg rd)\<lparr>hcount := rd_hcount rd\<rparr>) (rd_dsz rd)
                then [] else take (unat (rd_hcount rd)) (handle (rd_msg rd)))
        else m = msg \<and> closed_handles evs = [])"
  by (simp add: zxrio_read_msg_def Let_def closed_handles_def discard_handles_def comp_def)

theorem zxrio_read_msg_ignores_embedded_hcount_witness:
  "zxrio_read_msg K0 (rd_forged\<lparr>rd_msg := (rd_msg rd_forged)\<lparr>hcount := 0\<rparr>\<rparr>) 5 msg_zero
     = zxrio_read_msg K0 rd_forged 5 msg_zero \<and>
   fst (zxrio_read_msg K0 rd_forged 5 msg_zero) = ZX_ERR_INVALID_ARGS K0 \<and>
   hcount (fst (snd (zxrio_read_msg K0 rd_forged 5 msg_zero))) = 1 \<and>
   closed_handles (snd (snd (zxrio_read_msg K0 rd_forged 5 msg_zero))) = [7]"
  using zxrio_read_msg_ignores_embedded_hcount [where K = K0 and rd = rd_forged and x = 0 and c = 5 and msg = msg_zero]
  by (simp add: zxrio_read_msg_def Let_def closed_handles_def discard_handles_def
        is_message_reply_valid_def K0_def rd_forged_def msg_zero_def)

section \<open>Properties of the transaction engine\<close>

lemma zxrio_txn_handles_kept:
  "zxrio_txn K co rio msg = (r, rio', msg', evs) \<Longrightarrow>
     rio_h rio' = rio_h rio \<and> rio_h2 rio' = rio_h2 rio"
  by (auto simp add: zxrio_txn_def Let_def fail_discard_handles_def split: if_splits)

lemma closed_handles_discard:
  "closed_handles (e # discard_handles hs n) = closed_handles [e] @ take n hs"
  by (simp add: closed_handles_def discard_handles_def comp_def)

text \<open>
  Once the outbound message has passed local validation, every negative result leaves
  the message with handle count zero. On the call-failed branch nothing is closed (the
  write phase handed the outbound handles over and no reply arrived); on the other three
  branches the handles the message buffer holds after the call are closed: the outbound
  handles when the kernel left the buffer as the request, the received ones otherwise.
\<close>

lemma zxrio_txn_valid_error_hcount:
  assumes "is_message_valid K msg" and "zxrio_txn K co rio msg = (r, rio', msg', evs)"
    and "sint r < 0"
  shows "hcount msg' = 0 \<and>
         closed_handles evs =
           (if sint (co_status co) < 0 \<and> co_status co = ZX_ERR_CALL_FAILED K then []
            else case co_reply co of
                   None \<Rightarrow> take (unat (hcount msg)) (handle msg)
                 | Some m \<Rightarrow> take (unat (hcount m)) (handle m))"
  using assms
  by (auto simp add: zxrio_txn_def Let_def fail_discard_handles_def closed_handles_discard
        split: if_splits option.splits)
     (simp_all add: closed_handles_def)




section \<open>Properties of the operations\<close>

text \<open>
  C9. For an ioctl of the "get two handles" kind whose transaction succeeds with a reply
  carrying exactly one handle (here handle 0x1234 and an eight-byte payload), the code
  returns success, but the first output slot holds zero and the second holds payload
  bytes: the \<^verbatim>\<open>memset\<close> that should clear the second slot is given the start of the
  output buffer. The received handle is neither in the output nor closed.
\<close>

theorem zxrio_ioctl_get_two_one_handle:
  "case ioctl_run of
     (r, rio', out, evs) \<Rightarrow>
       r = 0 \<and> out = [0, 0, 0, 0, 5, 6, 7, 8] \<and>
       load_handle out 0 = 0 \<and> load_handle out 1 = 0x08070605 \<and>
       closed_handles evs = []"
  by (simp add: ioctl_run_def zxrio_ioctl_def ioctl_setup_def ioctl_handles_def zxrio_txn_def
        is_message_valid_def is_message_reply_valid_def K0_def msg_zero_def
        co_one_handle_def rio0_def ioctl_get_two_def zero_hdr_def memcpy_def memset_def
        handles_bytes_def handle_bytes_def load_handle_def closed_handles_def
        discard_handles_def Let_def replicate_numeral array_load_numeral array_load_Suc
        array_load_0 array_store_def)

theorem zxrio_ioctl_get_two_one_handle_witness:
  "fst ioctl_run = 0 \<and> fst (snd (snd ioctl_run)) = [0, 0, 0, 0, 5, 6, 7, 8] \<and>
   0x1234 \<notin> set (closed_handles (snd (snd (snd ioctl_run))))"
proof -
  obtain r rio' out evs where run: "ioctl_run = (r, rio', out, evs)"
    by (cases ioctl_run) auto
  have "r = 0 \<and> out = [0, 0, 0, 0, 5, 6, 7, 8] \<and> closed_handles evs = []"
    using zxrio_ioctl_get_two_one_handle by (simp add: run)
  then show ?thesis
    by (simp add: run)
qed

text \<open>
  C6. \<^verbatim>\<open>zxrio_close\<close> returns the status of its transaction, whatever it is, and
  after the transaction (and the discarding of reply handles when it succeeded) closes
  the primary handle and, when it is non-zero, the secondary handle; both fields are
  zero afterwards. A second close on the resulting connection therefore finds both
  fields zero, leaves them zero, and its local cleanup closes only the zero handle.
\<close>

theorem zxrio_close_twice:
  "case zxrio_close K coa ma rio of
     (r1, rio1, evs1) \<Rightarrow>
       (case zxrio_txn K coa rio ((zero_hdr ma)\<lparr>op := ZXRIO_CLOSE K\<rparr>) of
          (r, rioT, msgT, evsT) \<Rightarrow>
            r1 = r \<and>
            evs1 = evsT @
                   (if 0 \<le> sint r then discard_handles (handle msgT) (unat (hcount msgT))
                    else []) @
                   HandleClose (rio_h rio) #
                   (if rio_h2 rio \<noteq> 0 then [HandleClose (rio_h2 rio)] else [])) \<and>
       rio_h rio1 = 0 \<and> rio_h2 rio1 = 0 \<and>
       (case zxrio_close K cob mb rio1 of
          (r2, rio2, evs2) \<Rightarrow>
            rio_h rio2 = 0 \<and> rio_h2 rio2 = 0 \<and>
            (case zxrio_txn K cob rio1 ((zero_hdr mb)\<lparr>op := ZXRIO_CLOSE K\<rparr>) of
               (r, rioT, msgT, evsT) \<Rightarrow>
                 r2 = r \<and>
                 evs2 = evsT @
                        (if 0 \<le> sint r
                         then discard_handles (handle msgT) (unat (hcount msgT)) else []) @
                        [HandleClose 0]))"
proof -
  obtain r rioT msgT evsT
    where t1: "zxrio_txn K coa rio ((zero_hdr ma)\<lparr>op := ZXRIO_CLOSE K\<rparr>) = (r, rioT, msgT, evsT)"
    by (cases "zxrio_txn K coa rio ((zero_hdr ma)\<lparr>op := ZXRIO_CLOSE K\<rparr>)") auto
  note k1 = zxrio_txn_handles_kept [OF t1]
  define rio1 where "rio1 = rioT\<lparr>rio_h := 0, rio_h2 := 0\<rparr>"
  obtain r' rioT' msgT' evsT'
    where t2: "zxrio_txn K cob rio1 ((zero_hdr mb)\<lparr>op := ZXRIO_CLOSE K\<rparr>) = (r', rioT', msgT', evsT')"
    by (cases "zxrio_txn K cob rio1 ((zero_hdr mb)\<lparr>op := ZXRIO_CLOSE K\<rparr>)") auto
  note k2 = zxrio_txn_handles_kept [OF t2]
  have z: "rio_h2 rioT = 0 \<Longrightarrow> rioT\<lparr>rio_h := 0\<rparr> = rio1"
    by (simp add: rio1_def)
  show ?thesis
    using t1 t2 k1 k2 z
    by (simp add: zxrio_close_def Let_def word_gt_0 rio1_def [symmetric])
       (simp add: rio1_def)
qed

theorem zxrio_close_twice_witness:
  "fst (zxrio_close K0 co_write_failed msg_zero rio0) = - 11 \<and>
   closed_handles (snd (snd (zxrio_close K0 co_write_failed msg_zero rio0))) = [3, 4] \<and>
   rio_h (fst (snd (zxrio_close K0 co_write_failed msg_zero rio0))) = 0 \<and>
   rio_h2 (fst (snd (zxrio_close K0 co_write_failed msg_zero rio0))) = 0 \<and>
   closed_handles (snd (snd (zxrio_close K0 co_write_failed msg_zero
       (fst (snd (zxrio_close K0 co_write_failed msg_zero rio0)))))) = [0]"
  using zxrio_close_twice [where K = K0 and coa = co_write_failed and ma = msg_zero and rio = rio0
          and cob = co_write_failed and mb = msg_zero]
  by (simp add: zxrio_close_def zxrio_txn_def fail_discard_handles_def is_message_valid_def
        K0_def msg_zero_def co_write_failed_def rio0_def zero_hdr_def closed_handles_def
        discard_handles_def Let_def)

section \<open>Properties of open and connect\<close>

text \<open>
  C7. In a synchronous describe-open whose reply was read (channel creation, request
  write and reply read succeeded): whenever the transport reports zero received handles,
  the describe record's handle field is the invalid handle; and when the reply size is
  not the size of the describe record or its op code is not the on-open marker, the
  result is the I/O error, the output handle is the invalid handle, and the handles
  closed are the auxiliary handle the peer returned (if any) and then the local
  endpoint.
\<close>

theorem zxrio_sync_open_connection_mismatch:
  assumes "0 \<le> sint (cr_status cr)" and "0 \<le> sint wr" and "dr_status dr = ZX_OK K"
    and "ZX_ERR_IO K \<noteq> ZX_OK K"
  shows "case zxrio_sync_open_connection K cr wr dr rio_hd msg info out of
     (r, msg', info', out', evs) \<Rightarrow>
       (dr_handles dr = 0 \<longrightarrow> info_handle info' = ZX_HANDLE_INVALID K) \<and>
       (unat (dr_dsize dr) \<noteq> SIZEOF_DESCRIBE K \<or> info_op (dr_info dr) \<noteq> ZXRIO_ON_OPEN K \<longrightarrow>
          r = ZX_ERR_IO K \<and> out' = ZX_HANDLE_INVALID K \<and>
          info_handle info' = (if dr_handles dr = 0 then ZX_HANDLE_INVALID K
                               else info_handle (dr_info dr)) \<and>
          closed_handles evs =
            (if info_handle info' \<noteq> ZX_HANDLE_INVALID K then [info_handle info'] else [])
            @ [cr_h0 cr])"
  using assms
  by (simp add: zxrio_sync_open_connection_def Let_def closed_handles_def)

theorem zxrio_sync_open_connection_mismatch_witness:
  "0 \<le> sint (cr_status cr_ok) \<and> 0 \<le> sint (0 :: zx_status) \<and>
   dr_status dr_wrong_op = ZX_OK K0 \<and> ZX_ERR_IO K0 \<noteq> ZX_OK K0 \<and>
   info_op (dr_info dr_wrong_op) \<noteq> ZXRIO_ON_OPEN K0 \<and>
   (case zxrio_sync_open_connection K0 cr_ok 0 dr_wrong_op 9 msg_zero info_zero 0 of
      (r, msg', info', out', evs) \<Rightarrow>
        r = ZX_ERR_IO K0 \<and> out' = 0 \<and> closed_handles evs = [30, 20]) \<and>
   dr_handles dr_no_handle = 0 \<and>
   (case zxrio_sync_open_connection K0 cr_ok 0 dr_no_handle 9 msg_zero info_zero 0 of
      (r, msg', info', out', evs) \<Rightarrow>
        r = 0 \<and> out' = 20 \<and> info_handle info' = 0 \<and> closed_handles evs = [])"
  using zxrio_sync_open_connection_mismatch [where cr = cr_ok and wr = 0 and dr = dr_wrong_op
          and K = K0 and rio_hd = 9 and msg = msg_zero and info = info_zero and out = 0]
        zxrio_sync_open_connection_mismatch [where cr = cr_ok and wr = 0 and dr = dr_no_handle
          and K = K0 and rio_hd = 9 and msg = msg_zero and info = info_zero and out = 0]
  by (simp add: zxrio_sync_open_connection_def Let_def closed_handles_def K0_def cr_ok_def
        dr_wrong_op_def dr_no_handle_def msg_zero_def info_zero_def)

text \<open>
  C8. The pipelined connect consumes the connection handle on every path and never
  makes a blocking call. It closes the handle and returns the bad-path error when the
  path length reaches the maximum, closes it and returns the invalid-argument error when
  the describe flag is set, and otherwise makes one channel write of a message with the
  given op code and handle count one whose only handle is the connection handle: when
  that write fails the handle is closed and the write's status returned, when it succeeds
  nothing is closed and the result is success.
\<close>

theorem zxrio_connect_consumes_cnxn:
  assumes "handle msg0 \<noteq> []"
  shows "case zxrio_connect K wr msg0 svc cnxn opn flags mode name of
     (r, evs) \<Rightarrow>
       filter is_blocking evs = [] \<and>
       (if length name \<ge> PATH_MAX K
        then r = ZX_ERR_BAD_PATH K \<and> evs = [HandleClose cnxn]
        else if flags AND ZX_FS_FLAG_DESCRIBE K \<noteq> 0
        then r = ZX_ERR_INVALID_ARGS K \<and> evs = [HandleClose cnxn]
        else \<exists>m n. op m = opn \<and> hcount m = 1 \<and>
               (if sint wr < 0
                then r = wr \<and> evs = [ChannelWrite svc m n [cnxn] wr, HandleClose cnxn]
                else r = ZX_OK K \<and> evs = [ChannelWrite svc m n [cnxn] wr]))"
  using assms
  by (cases "handle msg0") (auto simp add: zxrio_connect_def Let_def zero_hdr_def)

theorem zxrio_connect_consumes_cnxn_witness:
  "handle msg_zero \<noteq> [] \<and>
   zxrio_connect K0 0 msg_zero 9 33 3 3 493 (replicate 4096 0x61) = (ZX_ERR_BAD_PATH K0, [HandleClose 33]) \<and>
   zxrio_connect K0 0 msg_zero 9 33 3 0x800003 493 [0x66, 0x6F, 0x6F]
     = (ZX_ERR_INVALID_ARGS K0, [HandleClose 33]) \<and>
   (case zxrio_connect K0 (- 11) msg_zero 9 33 3 3 493 [0x66, 0x6F, 0x6F] of
      (r, evs) \<Rightarrow> r = - 11 \<and> closed_handles evs = [33] \<and> filter is_blocking evs = []) \<and>
   (case zxrio_connect K0 0 msg_zero 9 33 3 3 493 [0x66, 0x6F, 0x6F] of
      (r, evs) \<Rightarrow> r = 0 \<and> closed_handles evs = [] \<and> filter is_blocking evs = [] \<and>
        (\<exists>m. evs = [ChannelWrite 9 m 51 [33] 0] \<and> hcount m = 1 \<and> op m = 3))"
proof -
  have h: "handle msg_zero \<noteq> []" by (simp add: msg_zero_def)
  note T = zxrio_connect_consumes_cnxn [OF h, where K = K0 and svc = 9 and cnxn = 33 and opn = 3
             and mode = 493]
  have a: "zxrio_connect K0 0 msg_zero 9 33 3 3 493 (replicate 4096 0x61)
             = (ZX_ERR_BAD_PATH K0, [HandleClose 33])"
    using T [where wr = 0 and flags = 3 and name = "replicate 4096 0x61"]
    by (simp add: zxrio_connect_def K0_def)
  have b: "zxrio_connect K0 0 msg_zero 9 33 3 0x800003 493 [0x66, 0x6F, 0x6F]
             = (ZX_ERR_INVALID_ARGS K0, [HandleClose 33])"
    using T [where wr = 0 and flags = "0x800003" and name = "[0x66, 0x6F, 0x6F]"]
    by (simp add: zxrio_connect_def K0_def)
  have c: "case zxrio_connect K0 (- 11) msg_zero 9 33 3 3 493 [0x66, 0x6F, 0x6F] of
      (r, evs) \<Rightarrow> r = - 11 \<and> closed_handles evs = [33] \<and> filter is_blocking evs = []"
    using T [where wr = "- 11" and flags = 3 and name = "[0x66, 0x6F, 0x6F]"]
    by (simp add: zxrio_connect_def K0_def closed_handles_def Let_def)
  have d: "case zxrio_connect K0 0 msg_zero 9 33 3 3 493 [0x66, 0x6F, 0x6F] of
      (r, evs) \<Rightarrow> r = 0 \<and> closed_handles evs = [] \<and> filter is_blocking evs = [] \<and>
        (\<exists>m. evs = [ChannelWrite 9 m 51 [33] 0] \<and> hcount m = 1 \<and> op m = 3)"
    using T [where wr = 0 and flags = 3 and name = "[0x66, 0x6F, 0x6F]"]
    by (simp add: zxrio_connect_def K0_def closed_handles_def Let_def zero_hdr_def msg_zero_def)
  show ?thesis using h a b c d by simp
qed

section \<open>Properties of the chunked loops\<close>

lemma sint_of_nat_small: "n < 2 ^ 31 \<Longrightarrow> sint (of_nat n :: 32 word) = int n"
  by (simp add: signed_of_nat signed_take_bit_int_eq_self)

lemma unat_of_nat_le: "unat (of_nat n :: 32 word) \<le> n"
  by (simp add: unat_of_nat)

lemma txn_count_append: "txn_count (a @ b) = txn_count a + txn_count b"
  by (simp add: txn_count_def)

lemma filter_call_discard: "filter is_call (discard_handles hs n) = []"
  by (simp add: discard_handles_def filter_map comp_def)

lemma txn_count_discard: "txn_count (discard_handles hs n) = 0"
  by (simp add: txn_count_def filter_call_discard)

lemma zxrio_txn_one_call:
  "is_message_valid K msg \<Longrightarrow> zxrio_txn K co rio msg = (r, rio', msg', evs) \<Longrightarrow> txn_count evs = 1"
  by (auto simp add: zxrio_txn_def Let_def fail_discard_handles_def txn_count_def filter_call_discard split: if_splits)

lemma zxrio_txn_reply_status:
  "is_message_valid K msg \<Longrightarrow> reply_status K co v \<Longrightarrow>
   \<exists>rio' msg' evs. zxrio_txn K co rio msg = (v, rio', msg', evs) \<and> Some msg' = map_option (\<lambda>m. if sint v < 0 then m\<lparr>hcount := 0\<rparr> else m) (co_reply co)"
  by (auto simp add: zxrio_txn_def Let_def fail_discard_handles_def reply_status_def split: option.splits)


lemma write_request_valid: "is_message_valid K (write_request K opn s)"
proof -
  have "unat (of_nat (chunk_of K (st_len s)) :: 32 word) \<le> FDIO_CHUNK_SIZE K"
    using unat_of_nat_le [of "chunk_of K (st_len s)"]
    by (simp add: chunk_of_def split: if_splits)
  then show ?thesis
    by (simp add: write_request_def is_message_valid_def zero_hdr_def Let_def)
qed

lemma read_request_valid: "is_message_valid K (read_request K opn s)"
  by (simp add: read_request_def is_message_valid_def zero_hdr_def Let_def)

lemma write_loop_break:
  "0 < st_len s \<Longrightarrow> write_iter K opn (env (st_i s)) s = Break s' \<Longrightarrow> write_loop K opn env s = Some s'"
  by (subst write_loop.simps) simp

lemma write_loop_continue:
  "0 < st_len s \<Longrightarrow> write_iter K opn (env (st_i s)) s = Continue s' \<Longrightarrow>
     write_loop K opn env s = write_loop K opn env s'"
  by (subst write_loop.simps) simp

lemma write_loop_done: "st_len s = 0 \<Longrightarrow> write_loop K opn env s = Some s"
  by (subst write_loop.simps) simp

text \<open>One iteration of the write loop, by the status the transaction returns.\<close>

lemma write_iter_fail:
  assumes "zxrio_txn K co (st_rio s) (write_request K opn s) = (r, rio1, msg3, evs)"
    and "sint r < 0"
  shows "\<exists>s'. write_iter K opn co s = Break s' \<and> st_count s' = st_count s \<and> st_r s' = r \<and>
           st_i s' = Suc (st_i s) \<and> txn_count (st_evs s') = Suc (txn_count (st_evs s))"
  using assms zxrio_txn_one_call [OF write_request_valid assms(1)]
  by (simp add: write_iter_def Let_def txn_count_append)

lemma write_iter_short:
  assumes "zxrio_txn K co (st_rio s) (write_request K opn s) = (r, rio1, msg3, evs)"
    and "0 \<le> sint r" and "sint r < int (chunk_of K (st_len s))"
  shows "\<exists>s'. write_iter K opn co s = Break s' \<and> st_count s' = st_count s + sint r \<and>
           st_r s' = r \<and> st_i s' = Suc (st_i s) \<and> txn_count (st_evs s') = Suc (txn_count (st_evs s))"
  using assms zxrio_txn_one_call [OF write_request_valid assms(1)]
  by (simp add: write_iter_def Let_def txn_count_append txn_count_discard)

lemma write_iter_full:
  assumes "zxrio_txn K co (st_rio s) (write_request K opn s) = (r, rio1, msg3, evs)"
    and "sint r = int (chunk_of K (st_len s))"
  shows "\<exists>s'. write_iter K opn co s = Continue s' \<and>
           st_count s' = st_count s + int (chunk_of K (st_len s)) \<and>
           st_len s' = st_len s - chunk_of K (st_len s) \<and>
           st_i s' = Suc (st_i s) \<and> txn_count (st_evs s') = Suc (txn_count (st_evs s))"
  using assms zxrio_txn_one_call [OF write_request_valid assms(1)]
  by (simp add: write_iter_def Let_def txn_count_append txn_count_discard)


lemma chunk_of_full: "FDIO_CHUNK_SIZE K \<le> n \<Longrightarrow> chunk_of K n = FDIO_CHUNK_SIZE K"
  by (simp add: chunk_of_def)

lemma chunk_of_rest: "n \<le> FDIO_CHUNK_SIZE K \<Longrightarrow> chunk_of K n = n"
  by (simp add: chunk_of_def)

lemma write_full_steps:
  assumes "0 < FDIO_CHUNK_SIZE K" and "FDIO_CHUNK_SIZE K < 2 ^ 31"
    and "\<forall>i<k. reply_status K (env (st_i s + i)) (of_nat (FDIO_CHUNK_SIZE K))"
    and "k * FDIO_CHUNK_SIZE K \<le> st_len s"
  shows "\<exists>s'. write_loop K opn env s = write_loop K opn env s' \<and>
           st_count s' = st_count s + int (k * FDIO_CHUNK_SIZE K) \<and>
           st_len s' = st_len s - k * FDIO_CHUNK_SIZE K \<and>
           st_i s' = st_i s + k \<and>
           txn_count (st_evs s') = txn_count (st_evs s) + k \<and>
           (k = 0 \<longrightarrow> s' = s)"
  using assms(3,4)
proof (induction k arbitrary: s)
  case 0
  then show ?case by auto
next
  case (Suc k)
  let ?C = "FDIO_CHUNK_SIZE K"
  have len: "?C \<le> st_len s" "0 < st_len s"
    using Suc.prems(2) assms(1) by auto
  have rs: "reply_status K (env (st_i s)) (of_nat ?C)"
    using Suc.prems(1) by (metis add.right_neutral zero_less_Suc)
  obtain rio1 msg3 evs
    where t: "zxrio_txn K (env (st_i s)) (st_rio s) (write_request K opn s) = (of_nat ?C, rio1, msg3, evs)"
    using zxrio_txn_reply_status [OF write_request_valid rs] by blast
  have sr: "sint (of_nat ?C :: 32 word) = int (chunk_of K (st_len s))"
    using assms(2) len by (simp add: sint_of_nat_small chunk_of_full)
  obtain s1 where s1: "write_iter K opn (env (st_i s)) s = Continue s1"
      "st_count s1 = st_count s + int (chunk_of K (st_len s))"
      "st_len s1 = st_len s - chunk_of K (st_len s)"
      "st_i s1 = Suc (st_i s)" "txn_count (st_evs s1) = Suc (txn_count (st_evs s))"
    using write_iter_full [OF t sr] by blast
  have c: "chunk_of K (st_len s) = ?C"
    using len by (simp add: chunk_of_full)
  have p1: "\<forall>i<k. reply_status K (env (st_i s1 + i)) (of_nat ?C)"
    using Suc.prems(1) s1(4) by (metis Suc_less_eq add_Suc_shift)
  have p2: "k * ?C \<le> st_len s1"
    using Suc.prems(2) s1(3) c by simp
  obtain s' where s': "write_loop K opn env s1 = write_loop K opn env s'"
      "st_count s' = st_count s1 + int (k * ?C)" "st_len s' = st_len s1 - k * ?C"
      "st_i s' = st_i s1 + k" "txn_count (st_evs s') = txn_count (st_evs s1) + k"
    using Suc.IH [OF p1 p2] by blast
  have "write_loop K opn env s = write_loop K opn env s'"
    using write_loop_continue [where env = env, OF len(2) s1(1)] s'(1) by simp
  then show ?case
    using s' s1 c by (intro exI [of _ s']) (simp add: algebra_simps)
qed


lemma ceil_div:
  assumes "0 < (C::nat)"
  shows "(N + C - Suc 0) div C = N div C + (if N mod C = 0 then 0 else 1)"
proof -
  define q where "q = N div C"
  define r where "r = N mod C"
  have N: "N = q * C + r" by (simp add: q_def r_def)
  have r: "r < C" using assms by (simp add: r_def)
  show ?thesis
  proof (cases "r = 0")
    case True
    have "N + C - Suc 0 = q * C + (C - Suc 0)"
      using N True assms by simp
    also have "\<dots> div C = q + (C - Suc 0) div C"
      using assms by (simp only: div_mult_self3 [OF less_imp_neq [THEN not_sym]])
    also have "(C - Suc 0) div C = 0"
      using assms by simp
    finally show ?thesis using True by (simp add: q_def r_def)
  next
    case False
    have "N + C - Suc 0 = (q + 1) * C + (r - Suc 0)"
      using N False by (simp add: algebra_simps)
    also have "\<dots> div C = (q + 1) + (r - Suc 0) div C"
      using assms by (simp only: div_mult_self3 [OF less_imp_neq [THEN not_sym]])
    also have "(r - Suc 0) div C = 0"
      using r by simp
    finally show ?thesis using False by (simp add: q_def r_def)
  qed
qed

lemma io_init_simps:
  "st_count (io_init msg0 rio buf off) = 0" "st_r (io_init msg0 rio buf off) = 0"
  "st_len (io_init msg0 rio buf off) = length buf" "st_i (io_init msg0 rio buf off) = 0"
  "st_evs (io_init msg0 rio buf off) = []" "st_done (io_init msg0 rio buf off) = []"
  "st_data (io_init msg0 rio buf off) = buf"
  by (simp_all add: io_init_def)

lemma txn_count_Nil: "txn_count [] = 0"
  by (simp add: txn_count_def)

lemma write_common_full:
  assumes C: "0 < FDIO_CHUNK_SIZE K" "FDIO_CHUNK_SIZE K < 2 ^ 31"
    and full: "\<forall>i. i * FDIO_CHUNK_SIZE K < length buf \<longrightarrow>
             reply_status K (env i) (of_nat (chunk_of K (length buf - i * FDIO_CHUNK_SIZE K)))"
  shows "\<exists>s. write_common K opn env msg0 rio buf off = Some (int (length buf), s) \<and>
           txn_count (st_evs s) = (length buf + FDIO_CHUNK_SIZE K - 1) div FDIO_CHUNK_SIZE K"
proof -
  let ?C = "FDIO_CHUNK_SIZE K"
  let ?N = "length buf"
  let ?s0 = "io_init msg0 rio buf off"
  define q where "q = ?N div ?C"
  define rm where "rm = ?N mod ?C"
  have N: "?N = q * ?C + rm" by (simp add: q_def rm_def)
  have rm: "rm < ?C" using C(1) by (simp add: rm_def)
  have pre: "\<forall>i<q. reply_status K (env (st_i ?s0 + i)) (of_nat ?C)"
  proof (intro allI impI)
    fix i assume i: "i < q"
    then have "Suc i \<le> q" by simp
    then have "Suc i * ?C \<le> q * ?C" by (rule mult_le_mono1)
    then have le: "i * ?C + ?C \<le> ?N" using N by simp
    then have "i * ?C < ?N" using C(1) by linarith
    moreover have "?C \<le> ?N - i * ?C" using le by linarith
    then have "chunk_of K (?N - i * ?C) = ?C" by (rule chunk_of_full)
    ultimately show "reply_status K (env (st_i ?s0 + i)) (of_nat ?C)"
      using full by (metis add_0 io_init_simps(4))
  qed
  have qle: "q * ?C \<le> st_len ?s0" using N by (simp add: io_init_simps)
  obtain s1 where s1: "write_loop K opn env ?s0 = write_loop K opn env s1"
      "st_count s1 = st_count ?s0 + int (q * ?C)" "st_len s1 = st_len ?s0 - q * ?C"
      "st_i s1 = st_i ?s0 + q" "txn_count (st_evs s1) = txn_count (st_evs ?s0) + q"
      "q = 0 \<longrightarrow> s1 = ?s0"
    using write_full_steps [OF C pre qle] by blast
  have s1': "st_count s1 = int (q * ?C)" "st_len s1 = rm" "st_i s1 = q"
      "txn_count (st_evs s1) = q"
    using s1 N by (simp_all add: io_init_simps txn_count_Nil)
  show ?thesis
  proof (cases "rm = 0")
    case True
    have r0: "q = 0 \<Longrightarrow> st_r s1 = 0" using s1(6) by (simp add: io_init_simps)
    have "write_loop K opn env ?s0 = Some s1"
      using s1(1) write_loop_done [of s1] s1'(2) True by simp
    moreover have "io_return s1 = int ?N"
      using s1' N True r0 C(1) by (auto simp add: io_return_def)
    moreover have "txn_count (st_evs s1) = (?N + ?C - 1) div ?C"
      using s1'(4) True C(1) by (simp add: ceil_div q_def rm_def)
    ultimately show ?thesis by (simp add: write_common_def)
  next
    case False
    have lt: "q * ?C < ?N" using N False by simp
    have "chunk_of K (?N - q * ?C) = rm" using N rm by (simp add: chunk_of_def)
    then have rs: "reply_status K (env (st_i s1)) (of_nat rm)"
      using full lt s1'(3) by metis
    obtain rio1 msg3 evs
      where t: "zxrio_txn K (env (st_i s1)) (st_rio s1) (write_request K opn s1) = (of_nat rm, rio1, msg3, evs)"
      using zxrio_txn_reply_status [OF write_request_valid rs] by blast
    have ch: "chunk_of K (st_len s1) = rm"
      using rm s1'(2) by (simp add: chunk_of_rest)
    have sr: "sint (of_nat rm :: 32 word) = int (chunk_of K (st_len s1))"
      using C(2) rm ch by (simp add: sint_of_nat_small)
    obtain s2 where s2: "write_iter K opn (env (st_i s1)) s1 = Continue s2"
        "st_count s2 = st_count s1 + int (chunk_of K (st_len s1))"
        "st_len s2 = st_len s1 - chunk_of K (st_len s1)"
        "st_i s2 = Suc (st_i s1)" "txn_count (st_evs s2) = Suc (txn_count (st_evs s1))"
      using write_iter_full [OF t sr] by blast
    have pos: "0 < st_len s1" using False s1'(2) by simp
    have "write_loop K opn env s1 = Some s2"
      using write_loop_continue [where env = env, OF pos s2(1)] write_loop_done [of s2] s2(3) ch s1'(2)
      by simp
    then have "write_loop K opn env ?s0 = Some s2" using s1(1) by simp
    moreover have "io_return s2 = int ?N"
    proof -
      have "st_count s2 = int ?N" using s2(2) s1'(1) ch N by simp
      moreover have "?N \<noteq> 0" using lt by auto
      ultimately show ?thesis by (simp add: io_return_def)
    qed
    moreover have "txn_count (st_evs s2) = (?N + ?C - 1) div ?C"
      using s2(5) s1'(4) False C(1) by (simp add: ceil_div q_def rm_def)
    ultimately show ?thesis by (simp add: write_common_def)
  qed
qed


lemma write_prefix:
  assumes C: "0 < FDIO_CHUNK_SIZE K" "FDIO_CHUNK_SIZE K < 2 ^ 31"
    and pre: "\<forall>i<k. reply_status K (env i) (of_nat (FDIO_CHUNK_SIZE K))"
    and lt: "k * FDIO_CHUNK_SIZE K < length buf"
  shows "\<exists>s1. write_loop K opn env (io_init msg0 rio buf off) = write_loop K opn env s1 \<and>
           st_count s1 = int (k * FDIO_CHUNK_SIZE K) \<and>
           st_len s1 = length buf - k * FDIO_CHUNK_SIZE K \<and> 0 < st_len s1 \<and>
           st_i s1 = k \<and> txn_count (st_evs s1) = k \<and> (k = 0 \<longrightarrow> st_r s1 = 0)"
proof -
  let ?s0 = "io_init msg0 rio buf off"
  have p: "\<forall>i<k. reply_status K (env (st_i ?s0 + i)) (of_nat (FDIO_CHUNK_SIZE K))"
    using pre by (simp add: io_init_simps)
  have le: "k * FDIO_CHUNK_SIZE K \<le> st_len ?s0"
    using lt by (simp add: io_init_simps)
  obtain s1 where s1: "write_loop K opn env ?s0 = write_loop K opn env s1"
      "st_count s1 = st_count ?s0 + int (k * FDIO_CHUNK_SIZE K)"
      "st_len s1 = st_len ?s0 - k * FDIO_CHUNK_SIZE K"
      "st_i s1 = st_i ?s0 + k" "txn_count (st_evs s1) = txn_count (st_evs ?s0) + k"
      "k = 0 \<longrightarrow> s1 = ?s0"
    using write_full_steps [OF C p le] by blast
  show ?thesis
    using s1 lt by (intro exI [of _ s1]) (auto simp add: io_init_simps txn_count_Nil)
qed

lemma write_common_short:
  assumes C: "0 < FDIO_CHUNK_SIZE K" "FDIO_CHUNK_SIZE K < 2 ^ 31"
    and pre: "\<forall>i<k. reply_status K (env i) (of_nat (FDIO_CHUNK_SIZE K))"
    and lt: "k * FDIO_CHUNK_SIZE K < length buf"
    and rs: "reply_status K (env k) v"
    and v: "0 \<le> sint v" "sint v < int (chunk_of K (length buf - k * FDIO_CHUNK_SIZE K))"
  shows "\<exists>s. write_common K opn env msg0 rio buf off
               = Some (int (k * FDIO_CHUNK_SIZE K) + sint v, s) \<and>
           txn_count (st_evs s) = Suc k"
proof -
  obtain s1 where s1: "write_loop K opn env (io_init msg0 rio buf off) = write_loop K opn env s1"
      "st_count s1 = int (k * FDIO_CHUNK_SIZE K)"
      "st_len s1 = length buf - k * FDIO_CHUNK_SIZE K" "0 < st_len s1"
      "st_i s1 = k" "txn_count (st_evs s1) = k"
    using write_prefix [OF C pre lt] by blast
  have rs': "reply_status K (env (st_i s1)) v" using rs s1(5) by simp
  obtain rio1 msg3 evs
    where t: "zxrio_txn K (env (st_i s1)) (st_rio s1) (write_request K opn s1) = (v, rio1, msg3, evs)"
    using zxrio_txn_reply_status [OF write_request_valid rs'] by blast
  have v': "sint v < int (chunk_of K (st_len s1))" using v(2) s1(3) by simp
  obtain s2 where s2: "write_iter K opn (env (st_i s1)) s1 = Break s2"
      "st_count s2 = st_count s1 + sint v" "st_r s2 = v"
      "txn_count (st_evs s2) = Suc (txn_count (st_evs s1))"
    using write_iter_short [OF t v(1) v'] by blast
  have "write_loop K opn env (io_init msg0 rio buf off) = Some s2"
    using s1(1) write_loop_break [where env = env, OF s1(4) s2(1)] by simp
  moreover have "io_return s2 = int (k * FDIO_CHUNK_SIZE K) + sint v"
    using s2(2,3) s1(2) v(1) of_nat_0_le_iff [of "k * FDIO_CHUNK_SIZE K"]
    by (auto simp add: io_return_def simp del: of_nat_mult of_nat_0_le_iff)
  ultimately show ?thesis
    using s2(4) s1(6) by (simp add: write_common_def)
qed

lemma write_common_fail:
  assumes C: "0 < FDIO_CHUNK_SIZE K" "FDIO_CHUNK_SIZE K < 2 ^ 31"
    and pre: "\<forall>i<k. reply_status K (env i) (of_nat (FDIO_CHUNK_SIZE K))"
    and lt: "k * FDIO_CHUNK_SIZE K < length buf"
    and fl: "\<forall>r m. is_message_valid K m \<longrightarrow> fst (zxrio_txn K (env k) r m) = e"
    and e: "sint e < 0"
  shows "\<exists>s. write_common K opn env msg0 rio buf off
               = Some (if k = 0 then sint e else int (k * FDIO_CHUNK_SIZE K), s) \<and>
           txn_count (st_evs s) = Suc k"
proof -
  obtain s1 where s1: "write_loop K opn env (io_init msg0 rio buf off) = write_loop K opn env s1"
      "st_count s1 = int (k * FDIO_CHUNK_SIZE K)"
      "st_len s1 = length buf - k * FDIO_CHUNK_SIZE K" "0 < st_len s1"
      "st_i s1 = k" "txn_count (st_evs s1) = k"
    using write_prefix [OF C pre lt] by blast
  obtain r rio1 msg3 evs
    where t: "zxrio_txn K (env (st_i s1)) (st_rio s1) (write_request K opn s1) = (r, rio1, msg3, evs)"
    by (cases "zxrio_txn K (env (st_i s1)) (st_rio s1) (write_request K opn s1)") auto
  have re: "r = e"
    using fl write_request_valid [of K opn s1] t s1(5) by (metis fst_conv)
  obtain s2 where s2: "write_iter K opn (env (st_i s1)) s1 = Break s2"
      "st_count s2 = st_count s1" "st_r s2 = r"
      "txn_count (st_evs s2) = Suc (txn_count (st_evs s1))"
    using write_iter_fail [OF t] e re by blast
  have "write_loop K opn env (io_init msg0 rio buf off) = Some s2"
    using s1(1) write_loop_break [where env = env, OF s1(4) s2(1)] by simp
  moreover have "io_return s2 = (if k = 0 then sint e else int (k * FDIO_CHUNK_SIZE K))"
    using s2(2,3) s1(2) re C(1) by (simp add: io_return_def)
  ultimately show ?thesis
    using s2(4) s1(6) by (simp add: write_common_def)
qed


lemma zxrio_txn_read_reply:
  "is_message_valid K msg \<Longrightarrow> read_reply K co v \<Longrightarrow>
   \<exists>rio' msg' evs. zxrio_txn K co rio msg = (v, rio', msg', evs) \<and>
      sint v \<le> sint (datalen msg')"
  by (auto simp add: zxrio_txn_def Let_def fail_discard_handles_def reply_status_def
        read_reply_def split: option.splits)

lemma read_loop_break:
  "0 < st_len s \<Longrightarrow> read_iter K opn (env (st_i s)) s = Break s' \<Longrightarrow> read_loop K opn env s = Some s'"
  by (subst read_loop.simps) simp

lemma read_loop_continue:
  "0 < st_len s \<Longrightarrow> read_iter K opn (env (st_i s)) s = Continue s' \<Longrightarrow>
     read_loop K opn env s = read_loop K opn env s'"
  by (subst read_loop.simps) simp

lemma read_loop_done: "st_len s = 0 \<Longrightarrow> read_loop K opn env s = Some s"
  by (subst read_loop.simps) simp


lemma read_iter_fail:
  assumes "zxrio_txn K co (st_rio s) (read_request K opn s) = (r, rio1, msg3, evs)"
    and "sint r < 0"
  shows "\<exists>s'. read_iter K opn co s = Break s' \<and> st_count s' = st_count s \<and> st_r s' = r \<and>
           st_i s' = Suc (st_i s) \<and> txn_count (st_evs s') = Suc (txn_count (st_evs s))"
  using assms zxrio_txn_one_call [OF read_request_valid assms(1)]
  by (simp add: read_iter_def Let_def txn_count_append)

lemma read_iter_short:
  assumes "zxrio_txn K co (st_rio s) (read_request K opn s) = (r, rio1, msg3, evs)"
    and "0 \<le> sint r" and "sint r < int (chunk_of K (st_len s))"
    and "sint r \<le> sint (datalen msg3)"
  shows "\<exists>s'. read_iter K opn co s = Break s' \<and> st_count s' = st_count s + sint r \<and>
           st_r s' = r \<and> st_i s' = Suc (st_i s) \<and> txn_count (st_evs s') = Suc (txn_count (st_evs s))"
  using assms zxrio_txn_one_call [OF read_request_valid assms(1)]
  by (simp add: read_iter_def Let_def txn_count_append txn_count_discard)

lemma read_iter_full:
  assumes "zxrio_txn K co (st_rio s) (read_request K opn s) = (r, rio1, msg3, evs)"
    and "sint r = int (chunk_of K (st_len s))"
    and "sint r \<le> sint (datalen msg3)"
  shows "\<exists>s'. read_iter K opn co s = Continue s' \<and>
           st_count s' = st_count s + int (chunk_of K (st_len s)) \<and>
           st_len s' = st_len s - chunk_of K (st_len s) \<and>
           st_i s' = Suc (st_i s) \<and> txn_count (st_evs s') = Suc (txn_count (st_evs s))"
  using assms zxrio_txn_one_call [OF read_request_valid assms(1)]
  by (simp add: read_iter_def Let_def txn_count_append txn_count_discard)



lemma read_full_steps:
  assumes "0 < FDIO_CHUNK_SIZE K" and "FDIO_CHUNK_SIZE K < 2 ^ 31"
    and "\<forall>i<k. read_reply K (env (st_i s + i)) (of_nat (FDIO_CHUNK_SIZE K))"
    and "k * FDIO_CHUNK_SIZE K \<le> st_len s"
  shows "\<exists>s'. read_loop K opn env s = read_loop K opn env s' \<and>
           st_count s' = st_count s + int (k * FDIO_CHUNK_SIZE K) \<and>
           st_len s' = st_len s - k * FDIO_CHUNK_SIZE K \<and>
           st_i s' = st_i s + k \<and>
           txn_count (st_evs s') = txn_count (st_evs s) + k \<and>
           (k = 0 \<longrightarrow> s' = s)"
  using assms(3,4)
proof (induction k arbitrary: s)
  case 0
  then show ?case by auto
next
  case (Suc k)
  let ?C = "FDIO_CHUNK_SIZE K"
  have len: "?C \<le> st_len s" "0 < st_len s"
    using Suc.prems(2) assms(1) by auto
  have rs: "read_reply K (env (st_i s)) (of_nat ?C)"
    using Suc.prems(1) by (metis add.right_neutral zero_less_Suc)
  obtain rio1 msg3 evs
    where t: "zxrio_txn K (env (st_i s)) (st_rio s) (read_request K opn s) = (of_nat ?C, rio1, msg3, evs)"
      and dl: "sint (of_nat ?C :: 32 word) \<le> sint (datalen msg3)"
    using zxrio_txn_read_reply [OF read_request_valid rs] by blast
  have sr: "sint (of_nat ?C :: 32 word) = int (chunk_of K (st_len s))"
    using assms(2) len by (simp add: sint_of_nat_small chunk_of_full)
  obtain s1 where s1: "read_iter K opn (env (st_i s)) s = Continue s1"
      "st_count s1 = st_count s + int (chunk_of K (st_len s))"
      "st_len s1 = st_len s - chunk_of K (st_len s)"
      "st_i s1 = Suc (st_i s)" "txn_count (st_evs s1) = Suc (txn_count (st_evs s))"
    using read_iter_full [OF t sr dl] by blast
  have c: "chunk_of K (st_len s) = ?C"
    using len by (simp add: chunk_of_full)
  have p1: "\<forall>i<k. read_reply K (env (st_i s1 + i)) (of_nat ?C)"
    using Suc.prems(1) s1(4) by (metis Suc_less_eq add_Suc_shift)
  have p2: "k * ?C \<le> st_len s1"
    using Suc.prems(2) s1(3) c by simp
  obtain s' where s': "read_loop K opn env s1 = read_loop K opn env s'"
      "st_count s' = st_count s1 + int (k * ?C)" "st_len s' = st_len s1 - k * ?C"
      "st_i s' = st_i s1 + k" "txn_count (st_evs s') = txn_count (st_evs s1) + k"
    using Suc.IH [OF p1 p2] by blast
  have "read_loop K opn env s = read_loop K opn env s'"
    using read_loop_continue [where env = env, OF len(2) s1(1)] s'(1) by simp
  then show ?case
    using s' s1 c by (intro exI [of _ s']) (simp add: algebra_simps)
qed



lemma read_common_full:
  assumes C: "0 < FDIO_CHUNK_SIZE K" "FDIO_CHUNK_SIZE K < 2 ^ 31"
    and full: "\<forall>i. i * FDIO_CHUNK_SIZE K < length buf \<longrightarrow>
             read_reply K (env i) (of_nat (chunk_of K (length buf - i * FDIO_CHUNK_SIZE K)))"
  shows "\<exists>s. read_common K opn env msg0 rio buf off = Some (int (length buf), s) \<and>
           txn_count (st_evs s) = (length buf + FDIO_CHUNK_SIZE K - 1) div FDIO_CHUNK_SIZE K"
proof -
  let ?C = "FDIO_CHUNK_SIZE K"
  let ?N = "length buf"
  let ?s0 = "io_init msg0 rio buf off"
  define q where "q = ?N div ?C"
  define rm where "rm = ?N mod ?C"
  have N: "?N = q * ?C + rm" by (simp add: q_def rm_def)
  have rm: "rm < ?C" using C(1) by (simp add: rm_def)
  have pre: "\<forall>i<q. read_reply K (env (st_i ?s0 + i)) (of_nat ?C)"
  proof (intro allI impI)
    fix i assume i: "i < q"
    then have "Suc i \<le> q" by simp
    then have "Suc i * ?C \<le> q * ?C" by (rule mult_le_mono1)
    then have le: "i * ?C + ?C \<le> ?N" using N by simp
    then have "i * ?C < ?N" using C(1) by linarith
    moreover have "?C \<le> ?N - i * ?C" using le by linarith
    then have "chunk_of K (?N - i * ?C) = ?C" by (rule chunk_of_full)
    ultimately show "read_reply K (env (st_i ?s0 + i)) (of_nat ?C)"
      using full by (metis add_0 io_init_simps(4))
  qed
  have qle: "q * ?C \<le> st_len ?s0" using N by (simp add: io_init_simps)
  obtain s1 where s1: "read_loop K opn env ?s0 = read_loop K opn env s1"
      "st_count s1 = st_count ?s0 + int (q * ?C)" "st_len s1 = st_len ?s0 - q * ?C"
      "st_i s1 = st_i ?s0 + q" "txn_count (st_evs s1) = txn_count (st_evs ?s0) + q"
      "q = 0 \<longrightarrow> s1 = ?s0"
    using read_full_steps [OF C pre qle] by blast
  have s1': "st_count s1 = int (q * ?C)" "st_len s1 = rm" "st_i s1 = q"
      "txn_count (st_evs s1) = q"
    using s1 N by (simp_all add: io_init_simps txn_count_Nil)
  show ?thesis
  proof (cases "rm = 0")
    case True
    have r0: "q = 0 \<Longrightarrow> st_r s1 = 0" using s1(6) by (simp add: io_init_simps)
    have "read_loop K opn env ?s0 = Some s1"
      using s1(1) read_loop_done [of s1] s1'(2) True by simp
    moreover have "io_return s1 = int ?N"
      using s1' N True r0 C(1) by (auto simp add: io_return_def)
    moreover have "txn_count (st_evs s1) = (?N + ?C - 1) div ?C"
      using s1'(4) True C(1) by (simp add: ceil_div q_def rm_def)
    ultimately show ?thesis by (simp add: read_common_def)
  next
    case False
    have lt: "q * ?C < ?N" using N False by simp
    have "chunk_of K (?N - q * ?C) = rm" using N rm by (simp add: chunk_of_def)
    then have rs: "read_reply K (env (st_i s1)) (of_nat rm)"
      using full lt s1'(3) by metis
    obtain rio1 msg3 evs
      where t: "zxrio_txn K (env (st_i s1)) (st_rio s1) (read_request K opn s1) = (of_nat rm, rio1, msg3, evs)"
        and dl: "sint (of_nat rm :: 32 word) \<le> sint (datalen msg3)"
      using zxrio_txn_read_reply [OF read_request_valid rs] by blast
    have ch: "chunk_of K (st_len s1) = rm"
      using rm s1'(2) by (simp add: chunk_of_rest)
    have sr: "sint (of_nat rm :: 32 word) = int (chunk_of K (st_len s1))"
      using C(2) rm ch by (simp add: sint_of_nat_small)
    obtain s2 where s2: "read_iter K opn (env (st_i s1)) s1 = Continue s2"
        "st_count s2 = st_count s1 + int (chunk_of K (st_len s1))"
        "st_len s2 = st_len s1 - chunk_of K (st_len s1)"
        "st_i s2 = Suc (st_i s1)" "txn_count (st_evs s2) = Suc (txn_count (st_evs s1))"
      using read_iter_full [OF t sr dl] by blast
    have pos: "0 < st_len s1" using False s1'(2) by simp
    have "read_loop K opn env s1 = Some s2"
      using read_loop_continue [where env = env, OF pos s2(1)] read_loop_done [of s2] s2(3) ch s1'(2)
      by simp
    then have "read_loop K opn env ?s0 = Some s2" using s1(1) by simp
    moreover have "io_return s2 = int ?N"
    proof -
      have "st_count s2 = int ?N" using s2(2) s1'(1) ch N by simp
      moreover have "?N \<noteq> 0" using lt by auto
      ultimately show ?thesis by (simp add: io_return_def)
    qed
    moreover have "txn_count (st_evs s2) = (?N + ?C - 1) div ?C"
      using s2(5) s1'(4) False C(1) by (simp add: ceil_div q_def rm_def)
    ultimately show ?thesis by (simp add: read_common_def)
  qed
qed



lemma read_prefix:
  assumes C: "0 < FDIO_CHUNK_SIZE K" "FDIO_CHUNK_SIZE K < 2 ^ 31"
    and pre: "\<forall>i<k. read_reply K (env i) (of_nat (FDIO_CHUNK_SIZE K))"
    and lt: "k * FDIO_CHUNK_SIZE K < length buf"
  shows "\<exists>s1. read_loop K opn env (io_init msg0 rio buf off) = read_loop K opn env s1 \<and>
           st_count s1 = int (k * FDIO_CHUNK_SIZE K) \<and>
           st_len s1 = length buf - k * FDIO_CHUNK_SIZE K \<and> 0 < st_len s1 \<and>
           st_i s1 = k \<and> txn_count (st_evs s1) = k \<and> (k = 0 \<longrightarrow> st_r s1 = 0)"
proof -
  let ?s0 = "io_init msg0 rio buf off"
  have p: "\<forall>i<k. read_reply K (env (st_i ?s0 + i)) (of_nat (FDIO_CHUNK_SIZE K))"
    using pre by (simp add: io_init_simps)
  have le: "k * FDIO_CHUNK_SIZE K \<le> st_len ?s0"
    using lt by (simp add: io_init_simps)
  obtain s1 where s1: "read_loop K opn env ?s0 = read_loop K opn env s1"
      "st_count s1 = st_count ?s0 + int (k * FDIO_CHUNK_SIZE K)"
      "st_len s1 = st_len ?s0 - k * FDIO_CHUNK_SIZE K"
      "st_i s1 = st_i ?s0 + k" "txn_count (st_evs s1) = txn_count (st_evs ?s0) + k"
      "k = 0 \<longrightarrow> s1 = ?s0"
    using read_full_steps [OF C p le] by blast
  show ?thesis
    using s1 lt by (intro exI [of _ s1]) (auto simp add: io_init_simps txn_count_Nil)
qed

lemma read_common_short:
  assumes C: "0 < FDIO_CHUNK_SIZE K" "FDIO_CHUNK_SIZE K < 2 ^ 31"
    and pre: "\<forall>i<k. read_reply K (env i) (of_nat (FDIO_CHUNK_SIZE K))"
    and lt: "k * FDIO_CHUNK_SIZE K < length buf"
    and rs: "read_reply K (env k) v"
    and v: "0 \<le> sint v" "sint v < int (chunk_of K (length buf - k * FDIO_CHUNK_SIZE K))"
  shows "\<exists>s. read_common K opn env msg0 rio buf off
               = Some (int (k * FDIO_CHUNK_SIZE K) + sint v, s) \<and>
           txn_count (st_evs s) = Suc k"
proof -
  obtain s1 where s1: "read_loop K opn env (io_init msg0 rio buf off) = read_loop K opn env s1"
      "st_count s1 = int (k * FDIO_CHUNK_SIZE K)"
      "st_len s1 = length buf - k * FDIO_CHUNK_SIZE K" "0 < st_len s1"
      "st_i s1 = k" "txn_count (st_evs s1) = k"
    using read_prefix [OF C pre lt] by blast
  have rs': "read_reply K (env (st_i s1)) v" using rs s1(5) by simp
  obtain rio1 msg3 evs
    where t: "zxrio_txn K (env (st_i s1)) (st_rio s1) (read_request K opn s1) = (v, rio1, msg3, evs)"
      and dl: "sint v \<le> sint (datalen msg3)"
    using zxrio_txn_read_reply [OF read_request_valid rs'] by blast
  have v': "sint v < int (chunk_of K (st_len s1))" using v(2) s1(3) by simp
  obtain s2 where s2: "read_iter K opn (env (st_i s1)) s1 = Break s2"
      "st_count s2 = st_count s1 + sint v" "st_r s2 = v"
      "txn_count (st_evs s2) = Suc (txn_count (st_evs s1))"
    using read_iter_short [OF t v(1) v' dl] by blast
  have "read_loop K opn env (io_init msg0 rio buf off) = Some s2"
    using s1(1) read_loop_break [where env = env, OF s1(4) s2(1)] by simp
  moreover have "io_return s2 = int (k * FDIO_CHUNK_SIZE K) + sint v"
    using s2(2,3) s1(2) v(1) of_nat_0_le_iff [of "k * FDIO_CHUNK_SIZE K"]
    by (auto simp add: io_return_def simp del: of_nat_mult of_nat_0_le_iff)
  ultimately show ?thesis
    using s2(4) s1(6) by (simp add: read_common_def)
qed

lemma read_common_fail:
  assumes C: "0 < FDIO_CHUNK_SIZE K" "FDIO_CHUNK_SIZE K < 2 ^ 31"
    and pre: "\<forall>i<k. read_reply K (env i) (of_nat (FDIO_CHUNK_SIZE K))"
    and lt: "k * FDIO_CHUNK_SIZE K < length buf"
    and fl: "\<forall>r m. is_message_valid K m \<longrightarrow> fst (zxrio_txn K (env k) r m) = e"
    and e: "sint e < 0"
  shows "\<exists>s. read_common K opn env msg0 rio buf off
               = Some (if k = 0 then sint e else int (k * FDIO_CHUNK_SIZE K), s) \<and>
           txn_count (st_evs s) = Suc k"
proof -
  obtain s1 where s1: "read_loop K opn env (io_init msg0 rio buf off) = read_loop K opn env s1"
      "st_count s1 = int (k * FDIO_CHUNK_SIZE K)"
      "st_len s1 = length buf - k * FDIO_CHUNK_SIZE K" "0 < st_len s1"
      "st_i s1 = k" "txn_count (st_evs s1) = k"
    using read_prefix [OF C pre lt] by blast
  obtain r rio1 msg3 evs
    where t: "zxrio_txn K (env (st_i s1)) (st_rio s1) (read_request K opn s1) = (r, rio1, msg3, evs)"
    by (cases "zxrio_txn K (env (st_i s1)) (st_rio s1) (read_request K opn s1)") auto
  have re: "r = e"
    using fl read_request_valid [of K opn s1] t s1(5) by (metis fst_conv)
  obtain s2 where s2: "read_iter K opn (env (st_i s1)) s1 = Break s2"
      "st_count s2 = st_count s1" "st_r s2 = r"
      "txn_count (st_evs s2) = Suc (txn_count (st_evs s1))"
    using read_iter_fail [OF t] e re by blast
  have "read_loop K opn env (io_init msg0 rio buf off) = Some s2"
    using s1(1) read_loop_break [where env = env, OF s1(4) s2(1)] by simp
  moreover have "io_return s2 = (if k = 0 then sint e else int (k * FDIO_CHUNK_SIZE K))"
    using s2(2,3) s1(2) re C(1) by (simp add: io_return_def)
  ultimately show ?thesis
    using s2(4) s1(6) by (simp add: read_common_def)
qed


lemma sint_le_uint: "sint (w :: 32 word) \<le> uint w"
proof -
  have "- (2 ^ 31) \<le> (0::int)" by simp
  then have "- (2 ^ 31) \<le> uint w"
    using uint_ge_0 [of w] by (rule order_trans)
  then have "signed_take_bit 31 (uint w) \<le> uint w"
    by (simp only: signed_take_bit_int_less_eq_self_iff)
  then show ?thesis
    by (simp add: sint_uint)
qed

text \<open>
  What one iteration of the read loop does to the caller's buffer: it copies exactly
  the first \<open>n\<close> bytes of the reply's payload array to the \<^verbatim>\<open>data\<close> pointer and
  moves the pointer past them, where \<open>n\<close> is the status word when the copy is reached
  and zero otherwise; every byte of the buffer beyond them stays as it was.
\<close>

lemma read_iter_copy_exact:
  "case zxrio_txn K co (st_rio s) (read_request K opn s) of
     (r, rio1, msg3, evs) \<Rightarrow>
       let n = (if 0 \<le> sint r \<and> sint r \<le> sint (datalen msg3) \<and>
                   sint r \<le> int (chunk_of K (st_len s))
                then nat (sint r) else 0)
       in n \<le> chunk_of K (st_len s) \<and>
          st_done (ctl_state (read_iter K opn co s)) = st_done s @ array_load (data msg3) n \<and>
          st_data (ctl_state (read_iter K opn co s)) = drop n (st_data s)"
proof -
  obtain r rio1 msg3 evs
    where t: "zxrio_txn K co (st_rio s) (read_request K opn s) = (r, rio1, msg3, evs)"
    by (cases "zxrio_txn K co (st_rio s) (read_request K opn s)") auto
  show ?thesis
    using t
    by (auto simp add: read_iter_def Let_def memcpy_def length_array_load array_load_0)
qed

text \<open>
  The caller's buffer keeps its size: when \<^verbatim>\<open>len\<close> is the number of bytes from the
  \<^verbatim>\<open>data\<close> pointer to the end of the buffer before an iteration, it is so after it,
  and the buffer as a whole is as long as before.
\<close>

lemma read_iter_buffer_size:
  assumes "length (st_data s) = st_len s"
  shows "length (st_data (ctl_state (read_iter K opn co s)))
           = st_len (ctl_state (read_iter K opn co s)) \<and>
         length (st_done (ctl_state (read_iter K opn co s)) @
                 st_data (ctl_state (read_iter K opn co s)))
           = length (st_done s @ st_data s)"
proof -
  obtain r rio1 msg3 evs
    where t: "zxrio_txn K co (st_rio s) (read_request K opn s) = (r, rio1, msg3, evs)"
    by (cases "zxrio_txn K co (st_rio s) (read_request K opn s)") auto
  have "chunk_of K (st_len s) \<le> st_len s"
    by (simp add: chunk_of_def)
  then show ?thesis
    using t assms
    by (auto simp add: read_iter_def Let_def memcpy_def length_array_load)
qed

lemma read_iter_oversize:
  assumes "zxrio_txn K co (st_rio s) (read_request K opn s) = (r, rio1, msg3, evs)"
    and "0 \<le> sint r"
    and "uint (datalen msg3) < sint r \<or> int (chunk_of K (st_len s)) < sint r"
  shows "\<exists>s'. read_iter K opn co s = Break s' \<and> st_r s' = ZX_ERR_IO K \<and>
           st_count s' = st_count s \<and> st_done s' = st_done s \<and> st_data s' = st_data s \<and>
           txn_count (st_evs s') = Suc (txn_count (st_evs s))"
proof -
  have "sint (datalen msg3) < sint r \<or> int (chunk_of K (st_len s)) < sint r"
    using assms(3) sint_le_uint [of "datalen msg3"] by linarith
  then show ?thesis
    using assms(1,2) zxrio_txn_one_call [OF read_request_valid assms(1)]
    by (simp add: read_iter_def Let_def txn_count_append txn_count_discard)
qed

text \<open>Both loops return, whatever the kernel answers, once the chunk size is positive.\<close>

lemma write_iter_continue_len:
  assumes "0 < FDIO_CHUNK_SIZE K" and "0 < st_len s"
    and "write_iter K opn co s = Continue s'"
  shows "st_len s' < st_len s"
proof -
  obtain r rio1 msg3 evs
    where t: "zxrio_txn K co (st_rio s) (write_request K opn s) = (r, rio1, msg3, evs)"
    by (cases "zxrio_txn K co (st_rio s) (write_request K opn s)") auto
  have "0 < chunk_of K (st_len s)" "chunk_of K (st_len s) \<le> st_len s"
    using assms(1,2) by (simp_all add: chunk_of_def)
  then show ?thesis
    using assms(3) t by (auto simp add: write_iter_def Let_def split: if_splits)
qed

lemma write_loop_total:
  assumes "0 < FDIO_CHUNK_SIZE K"
  shows "\<exists>s'. write_loop K opn env s = Some s'"
proof (induction "st_len s" arbitrary: s rule: less_induct)
  case less
  show ?case
  proof (cases "st_len s = 0")
    case True
    then show ?thesis by (simp add: write_loop_done)
  next
    case False
    then have pos: "0 < st_len s" by simp
    show ?thesis
    proof (cases "write_iter K opn (env (st_i s)) s")
      case (Break s1)
      then show ?thesis
        using write_loop_break [where env = env, OF pos] by simp
    next
      case (Continue s1)
      have "st_len s1 < st_len s"
        using write_iter_continue_len [OF assms pos Continue] .
      then show ?thesis
        using less.hyps [of s1] write_loop_continue [where env = env, OF pos Continue] by simp
    qed
  qed
qed

lemma read_iter_continue_len:
  assumes "0 < FDIO_CHUNK_SIZE K" and "0 < st_len s"
    and "read_iter K opn co s = Continue s'"
  shows "st_len s' < st_len s"
proof -
  obtain r rio1 msg3 evs
    where t: "zxrio_txn K co (st_rio s) (read_request K opn s) = (r, rio1, msg3, evs)"
    by (cases "zxrio_txn K co (st_rio s) (read_request K opn s)") auto
  have "0 < chunk_of K (st_len s)" "chunk_of K (st_len s) \<le> st_len s"
    using assms(1,2) by (simp_all add: chunk_of_def)
  then show ?thesis
    using assms(3) t by (auto simp add: read_iter_def Let_def split: if_splits)
qed

lemma read_loop_total:
  assumes "0 < FDIO_CHUNK_SIZE K"
  shows "\<exists>s'. read_loop K opn env s = Some s'"
proof (induction "st_len s" arbitrary: s rule: less_induct)
  case less
  show ?case
  proof (cases "st_len s = 0")
    case True
    then show ?thesis by (simp add: read_loop_done)
  next
    case False
    then have pos: "0 < st_len s" by simp
    show ?thesis
    proof (cases "read_iter K opn (env (st_i s)) s")
      case (Break s1)
      then show ?thesis
        using read_loop_break [where env = env, OF pos] by simp
    next
      case (Continue s1)
      have "st_len s1 < st_len s"
        using read_iter_continue_len [OF assms pos Continue] .
      then show ?thesis
        using less.hyps [of s1] read_loop_continue [where env = env, OF pos Continue] by simp
    qed
  qed
qed

text \<open>
  C5. With a positive maximum chunk size \<open>C\<close> (below \<open>2^31\<close>, so that a chunk length
  fits the status word) and a buffer of \<open>N\<close> bytes, for the write loop and for the
  read loop alike:
  \<^item> when every transaction reports the full amount requested, the loop returns \<open>N\<close>
    after exactly \<open>(N + C - 1) div C\<close> transactions;
  \<^item> when the first \<open>k\<close> transactions are full and the next one reports fewer bytes
    than requested, the loop stops there: it returns the total so far after \<open>k + 1\<close>
    transactions;
  \<^item> when the first \<open>k\<close> transactions are full and the next one fails with a negative
    status \<open>e\<close>, the loop stops after \<open>k + 1\<close> transactions and returns the total so
    far if it is non-zero (\<open>k > 0\<close>), and \<open>e\<close> otherwise.
  And for every behaviour of the kernel each loop returns, with the accumulated count
  if it is non-zero and the last status otherwise.
\<close>

theorem chunked_io_transactions:
  assumes "0 < FDIO_CHUNK_SIZE K" and "FDIO_CHUNK_SIZE K < 2 ^ 31"
  shows
   "((\<forall>i. i * FDIO_CHUNK_SIZE K < length buf \<longrightarrow>
          reply_status K (env i) (of_nat (chunk_of K (length buf - i * FDIO_CHUNK_SIZE K)))) \<longrightarrow>
       (\<exists>s. write_common K opn env stack rio buf off = Some (int (length buf), s) \<and>
            txn_count (st_evs s)
              = (length buf + FDIO_CHUNK_SIZE K - 1) div FDIO_CHUNK_SIZE K)) \<and>
    ((\<forall>i<k. reply_status K (env i) (of_nat (FDIO_CHUNK_SIZE K))) \<and>
       k * FDIO_CHUNK_SIZE K < length buf \<and> reply_status K (env k) v \<and> 0 \<le> sint v \<and>
       sint v < int (chunk_of K (length buf - k * FDIO_CHUNK_SIZE K)) \<longrightarrow>
       (\<exists>s. write_common K opn env stack rio buf off
              = Some (int (k * FDIO_CHUNK_SIZE K) + sint v, s) \<and>
            txn_count (st_evs s) = Suc k)) \<and>
    ((\<forall>i<k. reply_status K (env i) (of_nat (FDIO_CHUNK_SIZE K))) \<and>
       k * FDIO_CHUNK_SIZE K < length buf \<and>
       (\<forall>r m. is_message_valid K m \<longrightarrow> fst (zxrio_txn K (env k) r m) = e) \<and> sint e < 0 \<longrightarrow>
       (\<exists>s. write_common K opn env stack rio buf off
              = Some (if k = 0 then sint e else int (k * FDIO_CHUNK_SIZE K), s) \<and>
            txn_count (st_evs s) = Suc k)) \<and>
    ((\<forall>i. i * FDIO_CHUNK_SIZE K < length buf \<longrightarrow>
          read_reply K (env i) (of_nat (chunk_of K (length buf - i * FDIO_CHUNK_SIZE K)))) \<longrightarrow>
       (\<exists>s. read_common K opn env stack rio buf off = Some (int (length buf), s) \<and>
            txn_count (st_evs s)
              = (length buf + FDIO_CHUNK_SIZE K - 1) div FDIO_CHUNK_SIZE K)) \<and>
    ((\<forall>i<k. read_reply K (env i) (of_nat (FDIO_CHUNK_SIZE K))) \<and>
       k * FDIO_CHUNK_SIZE K < length buf \<and> read_reply K (env k) v \<and> 0 \<le> sint v \<and>
       sint v < int (chunk_of K (length buf - k * FDIO_CHUNK_SIZE K)) \<longrightarrow>
       (\<exists>s. read_common K opn env stack rio buf off
              = Some (int (k * FDIO_CHUNK_SIZE K) + sint v, s) \<and>
            txn_count (st_evs s) = Suc k)) \<and>
    ((\<forall>i<k. read_reply K (env i) (of_nat (FDIO_CHUNK_SIZE K))) \<and>
       k * FDIO_CHUNK_SIZE K < length buf \<and>
       (\<forall>r m. is_message_valid K m \<longrightarrow> fst (zxrio_txn K (env k) r m) = e) \<and> sint e < 0 \<longrightarrow>
       (\<exists>s. read_common K opn env stack rio buf off
              = Some (if k = 0 then sint e else int (k * FDIO_CHUNK_SIZE K), s) \<and>
            txn_count (st_evs s) = Suc k)) \<and>
    (\<exists>s. write_common K opn env stack rio buf off = Some (io_return s, s)) \<and>
    (\<exists>s. read_common K opn env stack rio buf off = Some (io_return s, s))"
  using write_loop_total [OF assms(1), of opn env "io_init stack rio buf off"]
        read_loop_total [OF assms(1), of opn env "io_init stack rio buf off"]
        write_common_full [OF assms, of buf env opn stack rio off]
        write_common_short [OF assms, of k env buf v opn stack rio off]
        write_common_fail [OF assms, of k env buf e opn stack rio off]
        read_common_full [OF assms, of buf env opn stack rio off]
        read_common_short [OF assms, of k env buf v opn stack rio off]
        read_common_fail [OF assms, of k env buf e opn stack rio off]
  by (simp only: One_nat_def write_common_def read_common_def) blast

theorem chunked_io_transactions_witness:
  "0 < FDIO_CHUNK_SIZE K1 \<and> FDIO_CHUNK_SIZE K1 < 2 ^ 31 \<and>
   read_reply K1 (env_full 0) 4 \<and> read_reply K1 (env_full 1) 4 \<and>
   read_reply K1 (env_full 2) 2 \<and>
   (\<exists>s. write_common K1 6 env_full msg_zero rio0 buf10 0 = Some (10, s) \<and>
        txn_count (st_evs s) = 3) \<and>
   (\<exists>s. read_common K1 5 env_full msg_zero rio0 buf10 0 = Some (10, s) \<and>
        txn_count (st_evs s) = 3) \<and>
   read_reply K1 (env_short 0) 4 \<and> read_reply K1 (env_short 1) 2 \<and>
   (\<exists>s. write_common K1 6 env_short msg_zero rio0 buf10 0 = Some (6, s) \<and>
        txn_count (st_evs s) = 2) \<and>
   (\<exists>s. read_common K1 5 env_short msg_zero rio0 buf10 0 = Some (6, s) \<and>
        txn_count (st_evs s) = 2) \<and>
   read_reply K1 (env_fail 0) 4 \<and>
   fst (zxrio_txn K1 (env_fail 1) rio0 msg_zero) = - 11 \<and>
   (\<exists>s. write_common K1 6 env_fail msg_zero rio0 buf10 0 = Some (4, s) \<and>
        txn_count (st_evs s) = 2) \<and>
   (\<exists>s. read_common K1 5 env_fail msg_zero rio0 buf10 0 = Some (4, s) \<and>
        txn_count (st_evs s) = 2)"
proof -
  have c: "0 < FDIO_CHUNK_SIZE K1" "FDIO_CHUNK_SIZE K1 < 2 ^ 31"
    by (simp_all add: K1_def K0_def)
  have C4: "FDIO_CHUNK_SIZE K1 = 4" and n10: "length buf10 = 10"
    by (simp_all add: K1_def K0_def buf10_def)
  have r4: "read_reply K1 (co_ok 4) 4" and r2: "read_reply K1 (co_ok 2) 2"
    by (simp_all add: read_reply_def reply_status_def co_ok_def is_message_reply_valid_def
          is_message_valid_def K1_def K0_def msg_zero_def)
  have s4: "reply_status K1 (co_ok 4) 4" and s2: "reply_status K1 (co_ok 2) 2"
    using r4 r2 by (simp_all add: read_reply_def)
  have ch: "chunk_of K1 10 = 4" "chunk_of K1 6 = 4" "chunk_of K1 2 = 2"
    by (simp_all add: chunk_of_def C4)
  have cases3: "i = 0 \<or> i = 1 \<or> i = 2" if "i * 4 < (10::nat)" for i
    using that by arith
  have fullr: "\<forall>i. i * FDIO_CHUNK_SIZE K1 < length buf10 \<longrightarrow>
        read_reply K1 (env_full i)
          (of_nat (chunk_of K1 (length buf10 - i * FDIO_CHUNK_SIZE K1)))"
    unfolding C4 n10
  proof (intro allI impI)
    fix i :: nat
    assume "i * 4 < 10"
    then consider "i = 0" | "i = 1" | "i = 2"
      using cases3 by blast
    then show "read_reply K1 (env_full i) (of_nat (chunk_of K1 (10 - i * 4)))"
    proof cases
      case 1
      then show ?thesis using r4 ch by (simp add: env_full_def)
    next
      case 2
      then show ?thesis using r4 ch by (simp add: env_full_def)
    next
      case 3
      then show ?thesis using r2 ch by (simp add: env_full_def)
    qed
  qed
  have fullw: "\<forall>i. i * FDIO_CHUNK_SIZE K1 < length buf10 \<longrightarrow>
        reply_status K1 (env_full i)
          (of_nat (chunk_of K1 (length buf10 - i * FDIO_CHUNK_SIZE K1)))"
    using fullr by (simp add: read_reply_def)
  have prer: "\<forall>i<1. read_reply K1 (env_short i) (of_nat (FDIO_CHUNK_SIZE K1))"
    using r4 by (simp add: env_short_def C4)
  have prew: "\<forall>i<1. reply_status K1 (env_short i) (of_nat (FDIO_CHUNK_SIZE K1))"
    using s4 by (simp add: env_short_def C4)
  have prefr: "\<forall>i<1. read_reply K1 (env_fail i) (of_nat (FDIO_CHUNK_SIZE K1))"
    using r4 by (simp add: env_fail_def C4)
  have prefw: "\<forall>i<1. reply_status K1 (env_fail i) (of_nat (FDIO_CHUNK_SIZE K1))"
    using s4 by (simp add: env_fail_def C4)
  have lt: "1 * FDIO_CHUNK_SIZE K1 < length buf10"
    by (simp add: C4 n10)
  have sh: "read_reply K1 (env_short 1) 2" "reply_status K1 (env_short 1) 2"
      "read_reply K1 (env_short 0) 4"
    using r2 s2 r4 by (simp_all add: env_short_def)
  have v: "0 \<le> sint (2 :: zx_status)"
      "sint (2 :: zx_status) < int (chunk_of K1 (length buf10 - 1 * FDIO_CHUNK_SIZE K1))"
    by (simp_all add: C4 n10 ch)
  have fl: "\<forall>r m. is_message_valid K1 m \<longrightarrow> fst (zxrio_txn K1 (env_fail 1) r m) = - 11"
    by (simp add: env_fail_def co_write_failed_def zxrio_txn_def fail_discard_handles_def
          Let_def K1_def K0_def)
  have e: "sint (- 11 :: zx_status) < 0" by simp
  note T = chunked_io_transactions [OF c]
  have A: "\<exists>s. write_common K1 6 env_full msg_zero rio0 buf10 0 = Some (int (length buf10), s) \<and>
        txn_count (st_evs s) = (length buf10 + FDIO_CHUNK_SIZE K1 - 1) div FDIO_CHUNK_SIZE K1"
    using T [where env = env_full and buf = buf10 and opn = 6 and stack = msg_zero
               and rio = rio0 and off = 0, THEN conjunct1] fullw by blast
  have A': "\<exists>s. read_common K1 5 env_full msg_zero rio0 buf10 0 = Some (int (length buf10), s) \<and>
        txn_count (st_evs s) = (length buf10 + FDIO_CHUNK_SIZE K1 - 1) div FDIO_CHUNK_SIZE K1"
    using T [where env = env_full and buf = buf10 and opn = 5 and stack = msg_zero
               and rio = rio0 and off = 0,
             THEN conjunct2, THEN conjunct2, THEN conjunct2, THEN conjunct1] fullr by blast
  have B: "\<exists>s. write_common K1 6 env_short msg_zero rio0 buf10 0
              = Some (int (1 * FDIO_CHUNK_SIZE K1) + sint (2 :: zx_status), s) \<and>
            txn_count (st_evs s) = Suc 1"
    using T [where env = env_short and buf = buf10 and opn = 6 and stack = msg_zero
               and rio = rio0 and off = 0 and k = 1 and v = 2,
             THEN conjunct2, THEN conjunct1] prew lt sh(2) v by blast
  have B': "\<exists>s. read_common K1 5 env_short msg_zero rio0 buf10 0
              = Some (int (1 * FDIO_CHUNK_SIZE K1) + sint (2 :: zx_status), s) \<and>
            txn_count (st_evs s) = Suc 1"
    using T [where env = env_short and buf = buf10 and opn = 5 and stack = msg_zero
               and rio = rio0 and off = 0 and k = 1 and v = 2,
             THEN conjunct2, THEN conjunct2, THEN conjunct2, THEN conjunct2, THEN conjunct1]
          prer lt sh(1) v by blast
  have D: "\<exists>s. write_common K1 6 env_fail msg_zero rio0 buf10 0
              = Some (if (1::nat) = 0 then sint (- 11 :: zx_status)
                      else int (1 * FDIO_CHUNK_SIZE K1), s) \<and>
            txn_count (st_evs s) = Suc 1"
    using T [where env = env_fail and buf = buf10 and opn = 6 and stack = msg_zero
               and rio = rio0 and off = 0 and k = 1 and e = "- 11",
             THEN conjunct2, THEN conjunct2, THEN conjunct1] prefw lt fl e by blast
  have D': "\<exists>s. read_common K1 5 env_fail msg_zero rio0 buf10 0
              = Some (if (1::nat) = 0 then sint (- 11 :: zx_status)
                      else int (1 * FDIO_CHUNK_SIZE K1), s) \<and>
            txn_count (st_evs s) = Suc 1"
    using T [where env = env_fail and buf = buf10 and opn = 5 and stack = msg_zero
               and rio = rio0 and off = 0 and k = 1 and e = "- 11",
             THEN conjunct2, THEN conjunct2, THEN conjunct2, THEN conjunct2, THEN conjunct2,
             THEN conjunct1]
          prefr lt fl e by blast
  have ef: "read_reply K1 (env_full 0) 4" "read_reply K1 (env_full 1) 4"
      "read_reply K1 (env_full 2) 2" "read_reply K1 (env_fail 0) 4"
    using r4 r2 by (simp_all add: env_full_def env_fail_def)
  have f1: "fst (zxrio_txn K1 (env_fail 1) rio0 msg_zero) = - 11"
    using fl by (simp add: is_message_valid_def msg_zero_def K1_def K0_def)
  show ?thesis
    using c ef f1 sh(1,3) A A' B B' D D'
    by (simp add: C4 n10 numeral_2_eq_2)
qed

text \<open>
  C10. At the start of any iteration of the read loop (\<open>len > 0\<close>), if the transaction
  returns a non-negative status word that exceeds the reply's payload length or the
  number of bytes requested for the chunk, the loop stops after that transaction with
  the I/O error as status, so that the operation returns the count accumulated so far
  if it is non-zero and the I/O error otherwise, and nothing is copied into the caller's
  buffer. And whatever the kernel answers, one iteration copies exactly the first \<open>n\<close>
  bytes of the reply's payload to the start of the remaining caller's buffer, with
  \<open>n\<close> at most the requested chunk size (\<open>n\<close> is the status word when it is
  non-negative and within both bounds, zero otherwise), and leaves every later byte of
  the caller's buffer as it was; the caller's buffer keeps its size.
\<close>

theorem read_loop_oversize_reply:
  "(case zxrio_txn K (env (st_i s)) (st_rio s) (read_request K opn s) of
      (r, rio1, msg3, evs) \<Rightarrow>
        0 < st_len s \<and> 0 \<le> sint r \<and>
        (uint (datalen msg3) < sint r \<or> int (chunk_of K (st_len s)) < sint r) \<longrightarrow>
        (\<exists>s'. read_loop K opn env s = Some s' \<and> st_r s' = ZX_ERR_IO K \<and>
              io_return s' = (if st_count s \<noteq> 0 then st_count s else sint (ZX_ERR_IO K)) \<and>
              st_done s' = st_done s \<and> st_data s' = st_data s \<and>
              txn_count (st_evs s') = Suc (txn_count (st_evs s)))) \<and>
   (case zxrio_txn K co (st_rio s) (read_request K opn s) of
      (r, rio1, msg3, evs) \<Rightarrow>
        let n = (if 0 \<le> sint r \<and> sint r \<le> sint (datalen msg3) \<and>
                    sint r \<le> int (chunk_of K (st_len s))
                 then nat (sint r) else 0)
        in n \<le> chunk_of K (st_len s) \<and>
           st_done (ctl_state (read_iter K opn co s)) = st_done s @ array_load (data msg3) n \<and>
           st_data (ctl_state (read_iter K opn co s)) = drop n (st_data s)) \<and>
   (length (st_data s) = st_len s \<longrightarrow>
      length (st_data (ctl_state (read_iter K opn co s)))
        = st_len (ctl_state (read_iter K opn co s)) \<and>
      length (st_done (ctl_state (read_iter K opn co s)) @
              st_data (ctl_state (read_iter K opn co s)))
        = length (st_done s @ st_data s))"
proof -
  obtain r rio1 msg3 evs
    where t: "zxrio_txn K (env (st_i s)) (st_rio s) (read_request K opn s) = (r, rio1, msg3, evs)"
    by (cases "zxrio_txn K (env (st_i s)) (st_rio s) (read_request K opn s)") auto
  have "\<exists>s'. read_loop K opn env s = Some s' \<and> st_r s' = ZX_ERR_IO K \<and>
              io_return s' = (if st_count s \<noteq> 0 then st_count s else sint (ZX_ERR_IO K)) \<and>
              st_done s' = st_done s \<and> st_data s' = st_data s \<and>
              txn_count (st_evs s') = Suc (txn_count (st_evs s))"
    if h: "0 < st_len s" "0 \<le> sint r"
      "uint (datalen msg3) < sint r \<or> int (chunk_of K (st_len s)) < sint r"
  proof -
    obtain s' where s': "read_iter K opn (env (st_i s)) s = Break s'" "st_r s' = ZX_ERR_IO K"
        "st_count s' = st_count s" "st_done s' = st_done s" "st_data s' = st_data s"
        "txn_count (st_evs s') = Suc (txn_count (st_evs s))"
      using read_iter_oversize [OF t h(2,3)] by blast
    have "read_loop K opn env s = Some s'"
      using read_loop_break [where env = env, OF h(1) s'(1)] .
    then show ?thesis
      using s' by (simp add: io_return_def)
  qed
  then have "case zxrio_txn K (env (st_i s)) (st_rio s) (read_request K opn s) of
      (r, rio1, msg3, evs) \<Rightarrow>
        0 < st_len s \<and> 0 \<le> sint r \<and>
        (uint (datalen msg3) < sint r \<or> int (chunk_of K (st_len s)) < sint r) \<longrightarrow>
        (\<exists>s'. read_loop K opn env s = Some s' \<and> st_r s' = ZX_ERR_IO K \<and>
              io_return s' = (if st_count s \<noteq> 0 then st_count s else sint (ZX_ERR_IO K)) \<and>
              st_done s' = st_done s \<and> st_data s' = st_data s \<and>
              txn_count (st_evs s') = Suc (txn_count (st_evs s)))"
    using t by simp
  then show ?thesis
    using read_iter_copy_exact [where K = K and co = co and s = s and opn = opn]
          read_iter_buffer_size [where K = K and co = co and s = s and opn = opn]
    by blast
qed

theorem read_loop_oversize_reply_witness:
  "(case zxrio_txn K0 co_oversize rio0
           (read_request K0 5 (io_init msg_zero rio0 [0, 0, 0, 0] 0)) of
      (r, rio1, msg3, evs) \<Rightarrow> r = 5 \<and> datalen msg3 = 8) \<and>
   chunk_of K0 (st_len (io_init msg_zero rio0 [0, 0, 0, 0] 0)) = 4 \<and>
   (\<exists>s'. read_common K0 5 (\<lambda>i. co_oversize) msg_zero rio0 [0, 0, 0, 0] 0 = Some (- 40, s') \<and>
         st_done s' = [] \<and> st_data s' = [0, 0, 0, 0] \<and> txn_count (st_evs s') = 1) \<and>
   st_done (ctl_state (read_iter K0 5 co_two_of_eight
              (io_init msg_zero rio0 [0xAA, 0xAA, 0xAA, 0xAA] 0))) = [1, 2] \<and>
   st_data (ctl_state (read_iter K0 5 co_two_of_eight
              (io_init msg_zero rio0 [0xAA, 0xAA, 0xAA, 0xAA] 0))) = [0xAA, 0xAA] \<and>
   length (st_data (io_init msg_zero rio0 [0xAA, 0xAA, 0xAA, 0xAA] 0))
     = st_len (io_init msg_zero rio0 [0xAA, 0xAA, 0xAA, 0xAA] 0) \<and>
   st_len (ctl_state (read_iter K0 5 co_two_of_eight
             (io_init msg_zero rio0 [0xAA, 0xAA, 0xAA, 0xAA] 0))) = 2"
proof -
  have sz: "length (st_data (io_init msg_zero rio0 [0xAA, 0xAA, 0xAA, 0xAA] 0))
              = st_len (io_init msg_zero rio0 [0xAA, 0xAA, 0xAA, 0xAA] 0)"
    by (simp add: io_init_def)
  have cp: "st_done (ctl_state (read_iter K0 5 co_two_of_eight
                (io_init msg_zero rio0 [0xAA, 0xAA, 0xAA, 0xAA] 0))) = [1, 2] \<and>
            st_data (ctl_state (read_iter K0 5 co_two_of_eight
                (io_init msg_zero rio0 [0xAA, 0xAA, 0xAA, 0xAA] 0))) = [0xAA, 0xAA]"
    using read_loop_oversize_reply [where K = K0 and env = "\<lambda>i. co_oversize"
            and s = "io_init msg_zero rio0 [0xAA, 0xAA, 0xAA, 0xAA] 0"
            and opn = 5 and co = co_two_of_eight, THEN conjunct2, THEN conjunct1]
    by (simp add: zxrio_txn_def co_two_of_eight_def rio0_def read_request_def io_init_def
          chunk_of_def zero_hdr_def msg_zero_def K0_def is_message_valid_def
          is_message_reply_valid_def Let_def array_load_numeral array_load_Suc array_load_0
          array_store_def)
  let ?s = "io_init msg_zero rio0 [0, 0, 0, 0] 0"
  have t: "case zxrio_txn K0 co_oversize rio0 (read_request K0 5 ?s) of
             (r, rio1, msg3, evs) \<Rightarrow> r = 5 \<and> datalen msg3 = 8"
    by (simp add: zxrio_txn_def co_oversize_def rio0_def read_request_def io_init_def
          chunk_of_def zero_hdr_def msg_zero_def K0_def is_message_valid_def
          is_message_reply_valid_def Let_def)
  have ch: "chunk_of K0 (st_len ?s) = 4"
    by (simp add: chunk_of_def io_init_def K0_def)
  have "\<exists>s'. read_loop K0 5 (\<lambda>i. co_oversize) ?s = Some s' \<and>
              io_return s' = - 40 \<and> st_done s' = [] \<and> st_data s' = [0, 0, 0, 0] \<and>
              txn_count (st_evs s') = 1"
    using read_loop_oversize_reply [where K = K0 and env = "\<lambda>i. co_oversize" and s = ?s
            and opn = 5 and co = co_oversize, THEN conjunct1]
    by (simp add: zxrio_txn_def co_oversize_def rio0_def read_request_def io_init_def
          chunk_of_def zero_hdr_def msg_zero_def K0_def is_message_valid_def
          is_message_reply_valid_def Let_def txn_count_def)
       blast
  then obtain s' where s': "read_loop K0 5 (\<lambda>i. co_oversize) ?s = Some s'"
      "io_return s' = - 40" "st_done s' = []" "st_data s' = [0, 0, 0, 0]"
      "txn_count (st_evs s') = 1"
    by blast
  have "read_common K0 5 (\<lambda>i. co_oversize) msg_zero rio0 [0, 0, 0, 0] 0 = Some (- 40, s')"
    using s'(1,2) by (simp add: read_common_def)
  moreover have "st_len (ctl_state (read_iter K0 5 co_two_of_eight
             (io_init msg_zero rio0 [0xAA, 0xAA, 0xAA, 0xAA] 0))) = 2"
    using read_loop_oversize_reply [where K = K0 and env = "\<lambda>i. co_oversize"
            and s = "io_init msg_zero rio0 [0xAA, 0xAA, 0xAA, 0xAA] 0"
            and opn = 5 and co = co_two_of_eight, THEN conjunct2, THEN conjunct2] sz cp
    by simp
  ultimately show ?thesis
    using t ch s' cp sz by simp
qed

end
